theory Spec2Isabelle
  imports
    Complex_Main
    "HOL-Library.Log_Nat"
    "HOL-Library.List_Lexorder"
    "HOL-Library.Multiset"
    "HOL-Library.Word"
begin

section \<open>Numbers of the program\<close>

text \<open>
  The value column is an int64 column: a cell is a 64-bit word, a sum of cells wraps
  around, and the sum of a group is read as a signed integer (type \<open>int\<close>).
  Every other number of \<open>criar_mapa_calor\<close> is a binary64 float: the literals
  \<open>0.7\<close>, \<open>0.4\<close>, \<open>0.2\<close>, the products \<open>max_vitimas * 0.7\<close>, the
  quotient \<open>vitimas / max_vitimas\<close> and the radius. A finite float is the rational
  it denotes; an operation is the exact operation followed by rounding to the nearest
  binary64 value, ties to even. An integer that meets a float (in the quotient, in a
  product, in the comparison \<open>vitimas > max_vitimas * 0.7\<close>) is converted to
  binary64 first. The zero has no sign in this model.
\<close>

datatype pyfloat = Finite rat | PosInf | NegInf | NaN

definition ilog2 :: "rat \<Rightarrow> int" where
  \<comment> \<open>for \<open>0 < a\<close>: the integer \<open>k\<close> with \<open>2 ^ k \<le> a < 2 ^ (k + 1)\<close>\<close>
  "ilog2 a = (if 1 \<le> a then bitlen \<lfloor>a\<rfloor> - 1 else - bitlen (\<lceil>1 / a\<rceil> - 1))"

definition round_half_even :: "rat \<Rightarrow> int" where
  "round_half_even x =
     (let f = \<lfloor>x\<rfloor>; r = x - of_int f
      in if r < 1 / 2 then f
         else if 1 / 2 < r then f + 1
         else if even f then f else f + 1)"

definition exponent :: "rat \<Rightarrow> int" where
  \<comment> \<open>53 bits of precision; the least exponent of a binary64 value is \<open>-1074\<close>\<close>
  "exponent x = max (ilog2 \<bar>x\<bar> - 52) (- 1074)"

definition nearest :: "rat \<Rightarrow> rat" where
  "nearest x =
     (if x = 0 then 0
      else of_int (round_half_even (x / power_int 2 (exponent x))) * power_int 2 (exponent x))"

definition round_double :: "rat \<Rightarrow> pyfloat" where
  \<comment> \<open>overflow at \<open>2 ^ 1024\<close>\<close>
  "round_double x =
     (let y = nearest x
      in if 2 ^ 1024 \<le> y then PosInf
         else if y \<le> - (2 ^ 1024) then NegInf
         else Finite y)"

definition float_of_int :: "int \<Rightarrow> pyfloat" where
  "float_of_int i = round_double (of_int i)"

fun float_mul :: "pyfloat \<Rightarrow> pyfloat \<Rightarrow> pyfloat" where
  "float_mul NaN _ = NaN"
| "float_mul _ NaN = NaN"
| "float_mul (Finite a) (Finite b) = round_double (a * b)"
| "float_mul (Finite a) PosInf = (if a = 0 then NaN else if 0 < a then PosInf else NegInf)"
| "float_mul (Finite a) NegInf = (if a = 0 then NaN else if 0 < a then NegInf else PosInf)"
| "float_mul PosInf (Finite b) = (if b = 0 then NaN else if 0 < b then PosInf else NegInf)"
| "float_mul NegInf (Finite b) = (if b = 0 then NaN else if 0 < b then NegInf else PosInf)"
| "float_mul PosInf PosInf = PosInf"
| "float_mul PosInf NegInf = NegInf"
| "float_mul NegInf PosInf = NegInf"
| "float_mul NegInf NegInf = PosInf"

fun float_add :: "pyfloat \<Rightarrow> pyfloat \<Rightarrow> pyfloat" where
  "float_add NaN _ = NaN"
| "float_add _ NaN = NaN"
| "float_add (Finite a) (Finite b) = round_double (a + b)"
| "float_add (Finite a) PosInf = PosInf"
| "float_add (Finite a) NegInf = NegInf"
| "float_add PosInf (Finite b) = PosInf"
| "float_add NegInf (Finite b) = NegInf"
| "float_add PosInf PosInf = PosInf"
| "float_add PosInf NegInf = NaN"
| "float_add NegInf PosInf = NaN"
| "float_add NegInf NegInf = NegInf"

fun float_div :: "pyfloat \<Rightarrow> pyfloat \<Rightarrow> pyfloat" where
  \<comment> \<open>numpy's true division: dividing by zero gives an infinity or NaN, with a
      warning and no exception\<close>
  "float_div NaN _ = NaN"
| "float_div _ NaN = NaN"
| "float_div (Finite a) (Finite b) =
     (if b = 0 then (if a = 0 then NaN else if 0 < a then PosInf else NegInf)
      else round_double (a / b))"
| "float_div (Finite a) PosInf = Finite 0"
| "float_div (Finite a) NegInf = Finite 0"
| "float_div PosInf (Finite b) = (if 0 \<le> b then PosInf else NegInf)"
| "float_div NegInf (Finite b) = (if 0 \<le> b then NegInf else PosInf)"
| "float_div PosInf PosInf = NaN"
| "float_div PosInf NegInf = NaN"
| "float_div NegInf PosInf = NaN"
| "float_div NegInf NegInf = NaN"

fun float_gt :: "pyfloat \<Rightarrow> pyfloat \<Rightarrow> bool" where
  "float_gt NaN _ = False"
| "float_gt _ NaN = False"
| "float_gt (Finite a) (Finite b) = (b < a)"
| "float_gt (Finite a) PosInf = False"
| "float_gt (Finite a) NegInf = True"
| "float_gt PosInf (Finite b) = True"
| "float_gt NegInf (Finite b) = False"
| "float_gt PosInf PosInf = False"
| "float_gt PosInf NegInf = True"
| "float_gt NegInf PosInf = False"
| "float_gt NegInf NegInf = False"

definition float_lit :: "rat \<Rightarrow> pyfloat" where
  \<comment> \<open>a decimal literal of the source, read as the nearest binary64 value\<close>
  "float_lit q = round_double q"

section \<open>Strings of the program\<close>

text \<open>
  A Python string is the list of its code points, and the order of strings is the
  order of these lists. \<open>str\<close> gives the string of an ASCII literal of the source.
\<close>

type_synonym pystr = "nat list"

definition str :: "string \<Rightarrow> pystr" where
  "str s = map of_char s"

text \<open>
  Two things are decided by the Python runtime and the machine and not by the source;
  they are parameters of the model, and every theorem holds for all their values.
  \<^item> \<open>unicode_upper\<close> is \<open>str.upper\<close> on a text that has a character outside
    ASCII (the Unicode case mapping of the runtime). On ASCII text \<open>str.upper\<close>
    changes the letters a to z and nothing else.
  \<^item> \<open>tie_order\<close> is the order in which the sort of the platform leaves groups of
    equal sum: pandas sorts with a sort that is not stable.
\<close>

record platform =
  unicode_upper :: "pystr \<Rightarrow> pystr"
  tie_order :: "(pystr \<times> int) list \<Rightarrow> (pystr \<times> int) list"

definition ascii_upper :: "nat \<Rightarrow> nat" where
  "ascii_upper c = (if 97 \<le> c \<and> c \<le> 122 then c - 32 else c)"

definition upper :: "platform \<Rightarrow> pystr \<Rightarrow> pystr" where
  \<comment> \<open>\<open>str.upper\<close>\<close>
  "upper p s = (if list_all (\<lambda>c. c < 128) s then map ascii_upper s else unicode_upper p s)"

definition isspace :: "nat \<Rightarrow> bool" where
  \<comment> \<open>the whitespace of \<open>str.isspace\<close>\<close>
  "isspace c \<longleftrightarrow>
     c \<in> set [9, 10, 11, 12, 13, 28, 29, 30, 31, 32, 133, 160, 5760,
               8192, 8193, 8194, 8195, 8196, 8197, 8198, 8199, 8200, 8201, 8202,
               8232, 8233, 8239, 8287, 12288]"

definition strip :: "pystr \<Rightarrow> pystr" where
  \<comment> \<open>\<open>str.strip\<close> without argument\<close>
  "strip s = rev (dropWhile isspace (rev (dropWhile isspace s)))"

text \<open>The format \<open>{vitimas:,}\<close>: decimal digits, a comma between groups of three.\<close>

fun digits :: "nat \<Rightarrow> pystr" where
  "digits n = (if n < 10 then [48 + n] else digits (n div 10) @ [48 + n mod 10])"

function commas :: "pystr \<Rightarrow> pystr" where
  "commas ds =
     (if length ds \<le> 3 then ds
      else commas (take (length ds - 3) ds) @ str '','' @ drop (length ds - 3) ds)"
  by pat_completeness auto
termination
  by (relation "measure length") auto

definition format_comma :: "int \<Rightarrow> pystr" where
  "format_comma i =
     (if i < 0 then str ''-'' @ commas (digits (nat (- i))) else commas (digits (nat i)))"

section \<open>Data frames\<close>

text \<open>
  A data frame has named columns and rows. A column of a pandas frame has one type. A
  row holds its text cells (the municipality) and its int64 cells (the counts, the year,
  the month) under the column names. A text cell that is absent is pandas' missing
  value: \<open>groupby\<close> drops a row whose key is missing. An int64 column has no missing
  value.
\<close>

record row =
  text_cells :: "pystr \<rightharpoonup> pystr"
  int_cells :: "pystr \<Rightarrow> 64 word"

record dataframe =
  columns :: "pystr list"
  rows :: "row list"

datatype error = KeyError

definition filter_eq :: "pystr \<Rightarrow> int \<Rightarrow> dataframe \<Rightarrow> dataframe" where
  \<comment> \<open>\<open>df[df[col] == v]\<close>\<close>
  "filter_eq col v df = df\<lparr>rows := filter (\<lambda>r. sint (int_cells r col) = v) (rows df)\<rparr>"

definition df_mapa :: "dataframe \<Rightarrow> int option \<Rightarrow> int option \<Rightarrow> dataframe" where
  \<comment> \<open>lines 29 to 36: the copy of the frame with the two filters applied\<close>
  "df_mapa df ano mes =
     (let d1 = (case ano of
                  None \<Rightarrow> df
                | Some a \<Rightarrow>
                    if str ''ANO'' \<in> set (columns df) then filter_eq (str ''ANO'') a df else df)
      in case mes of
           None \<Rightarrow> d1
         | Some m \<Rightarrow>
             if str ''MES'' \<in> set (columns d1) then filter_eq (str ''MES'') m d1 else d1)"

definition entry :: "pystr \<Rightarrow> pystr \<Rightarrow> row \<Rightarrow> (pystr \<times> 64 word) option" where
  \<comment> \<open>the group key of a row and the value it adds to the group's sum\<close>
  "entry col_municipio col_vitimas r =
     (case text_cells r col_municipio of
        None \<Rightarrow> None
      | Some k \<Rightarrow> Some (k, int_cells r col_vitimas))"

definition groupby_sum :: "dataframe \<Rightarrow> pystr \<Rightarrow> pystr \<Rightarrow> error + (pystr \<times> int) list" where
  \<comment> \<open>\<open>df.groupby(col_municipio)[col_vitimas].sum()\<close>: one group for each key, the
      keys in ascending order, the int64 sum of each group; a column that the frame does
      not have raises KeyError\<close>
  "groupby_sum d col_municipio col_vitimas =
     (if col_municipio \<in> set (columns d) \<and> col_vitimas \<in> set (columns d)
      then let kvs = List.map_filter (entry col_municipio col_vitimas) (rows d)
           in Inr (map (\<lambda>k. (k, sint (sum_list (map snd (filter (\<lambda>kv. fst kv = k) kvs)))))
                       (sort (remdups (map fst kvs))))
      else Inl KeyError)"

definition sort_values_desc :: "platform \<Rightarrow> (pystr \<times> int) list \<Rightarrow> (pystr \<times> int) list" where
  \<comment> \<open>\<open>sort_values(ascending=False)\<close>: the groups in descending order of their sums,
      groups of equal sum in the order of the platform (a \<open>tie_order\<close> that does not
      reorder the groups is ignored). Every descending arrangement of the groups is the
      result for some \<open>tie_order\<close>\<close>
  "sort_values_desc p g =
     sort_key (\<lambda>kv. - snd kv) (if mset (tie_order p g) = mset g then tie_order p g else g)"

definition head :: "int \<Rightarrow> 'a list \<Rightarrow> 'a list" where
  \<comment> \<open>\<open>head(n)\<close>: the first \<open>n\<close> rows; for a negative \<open>n\<close> all but the last \<open>-n\<close>\<close>
  "head n xs = (if 0 \<le> n then take (nat n) xs else take (length xs - nat (- n)) xs)"

definition df_mapa_agg ::
  "platform \<Rightarrow> dataframe \<Rightarrow> pystr \<Rightarrow> pystr \<Rightarrow> int \<Rightarrow> error + (pystr \<times> int) list" where
  \<comment> \<open>line 39\<close>
  "df_mapa_agg p d col_municipio col_vitimas top_n =
     (case groupby_sum d col_municipio col_vitimas of
        Inl e \<Rightarrow> Inl e
      | Inr g \<Rightarrow> Inr (head top_n (sort_values_desc p g)))"

section \<open>The map\<close>

record coords =
  lat :: pyfloat
  lon :: pyfloat

record circle =
  location :: "pyfloat list"
  radius :: pyfloat
  popup :: pystr
  tooltip :: pystr
  color :: pystr
  fill :: bool
  fillColor :: pystr
  fillOpacity :: pyfloat
  weight :: int

record folium_map =
  map_location :: "pyfloat list"
  zoom_start :: int
  tiles :: pystr
  circles :: "circle list"
  html :: "pystr list"

definition folium_Map :: "pyfloat list \<Rightarrow> int \<Rightarrow> pystr \<Rightarrow> folium_map" where
  "folium_Map loc z t =
     \<lparr>map_location = loc, zoom_start = z, tiles = t, circles = [], html = []\<rparr>"

definition add_to :: "circle \<Rightarrow> folium_map \<Rightarrow> folium_map" where
  "add_to c m = m\<lparr>circles := circles m @ [c]\<rparr>"

definition add_child :: "pystr \<Rightarrow> folium_map \<Rightarrow> folium_map" where
  \<comment> \<open>\<open>m.get_root().html.add_child(folium.Element(...))\<close>\<close>
  "add_child e m = m\<lparr>html := html m @ [e]\<rparr>"

definition legend_html :: pystr where
  \<comment> \<open>the literal of lines 85 to 96, line by line: 10 is the line feed, 34 the double
      quote, 9679 the bullet, 233 the letter e with acute accent\<close>
  "legend_html =
     [10] @
     str ''    <div style='' @ [34] @ str ''position: fixed; '' @ [10] @
     str ''                bottom: 50px; right: 50px; width: 200px; height: 120px; '' @ [10] @
     str ''                background-color: white; border:2px solid grey; z-index:9999; '' @ [10] @
     str ''                font-size:14px; padding: 10px'' @ [34] @ str ''>'' @ [10] @
     str ''        <p style='' @ [34] @ str ''margin:0'' @ [34] @ str ''><b>Intensidade</b></p>'' @ [10] @
     str ''        <p style='' @ [34] @ str ''margin:5px 0'' @ [34] @ str ''><span style='' @ [34] @ str ''color:#8B0000'' @ [34] @ str ''>'' @ [9679] @ str ''</span> Muito Alta (>70%)</p>'' @ [10] @
     str ''        <p style='' @ [34] @ str ''margin:5px 0'' @ [34] @ str ''><span style='' @ [34] @ str ''color:#DC143C'' @ [34] @ str ''>'' @ [9679] @ str ''</span> Alta (40-70%)</p>'' @ [10] @
     str ''        <p style='' @ [34] @ str ''margin:5px 0'' @ [34] @ str ''><span style='' @ [34] @ str ''color:#FF6347'' @ [34] @ str ''>'' @ [9679] @ str ''</span> M'' @ [233] @ str ''dia (20-40%)</p>'' @ [10] @
     str ''        <p style='' @ [34] @ str ''margin:5px 0'' @ [34] @ str ''><span style='' @ [34] @ str ''color:#FFA07A'' @ [34] @ str ''>'' @ [9679] @ str ''</span> Baixa (<20%)</p>'' @ [10] @
     str ''    </div>'' @ [10] @
     str ''    ''"

definition radius_of :: "int \<Rightarrow> int \<Rightarrow> pyfloat" where
  \<comment> \<open>line 60: \<open>(vitimas / max_vitimas) * 30000 + 5000\<close>\<close>
  "radius_of vitimas max_vitimas =
     float_add
       (float_mul (float_div (float_of_int vitimas) (float_of_int max_vitimas))
          (float_of_int 30000))
       (float_of_int 5000)"

definition color_of :: "int \<Rightarrow> int \<Rightarrow> pystr" where
  \<comment> \<open>lines 63 to 70\<close>
  "color_of vitimas max_vitimas =
     (if float_gt (float_of_int vitimas) (float_mul (float_of_int max_vitimas) (float_lit (7 / 10)))
      then str ''#8B0000''
      else if float_gt (float_of_int vitimas) (float_mul (float_of_int max_vitimas) (float_lit (4 / 10)))
      then str ''#DC143C''
      else if float_gt (float_of_int vitimas) (float_mul (float_of_int max_vitimas) (float_lit (2 / 10)))
      then str ''#FF6347''
      else str ''#FFA07A'')"

definition folium_Circle :: "coords \<Rightarrow> pystr \<Rightarrow> int \<Rightarrow> int \<Rightarrow> circle" where
  \<comment> \<open>lines 72 to 82\<close>
  "folium_Circle c municipio vitimas max_vitimas =
     \<lparr>location = [lat c, lon c],
      radius = radius_of vitimas max_vitimas,
      popup = str ''<b>'' @ municipio @ str ''</b><br>Total: '' @ format_comma vitimas,
      tooltip = municipio @ str '': '' @ format_comma vitimas,
      color = color_of vitimas max_vitimas,
      fill = True,
      fillColor = color_of vitimas max_vitimas,
      fillOpacity = float_lit (6 / 10),
      weight = 2\<rparr>"

definition municipio_upper :: "platform \<Rightarrow> pystr \<Rightarrow> pystr" where
  \<comment> \<open>line 54: \<open>municipio.upper().strip()\<close>\<close>
  "municipio_upper p municipio = strip (upper p municipio)"

definition loop_body ::
  "platform \<Rightarrow> (pystr \<rightharpoonup> coords) \<Rightarrow> int \<Rightarrow> pystr \<times> int \<Rightarrow> folium_map \<Rightarrow> folium_map" where
  \<comment> \<open>lines 50 to 82, for one row of the aggregated frame\<close>
  "loop_body p COORDENADAS_MUNICIPIOS max_vitimas row m =
     (let municipio = fst row; vitimas = snd row
      in case COORDENADAS_MUNICIPIOS (municipio_upper p municipio) of
           None \<Rightarrow> m
         | Some c \<Rightarrow> add_to (folium_Circle c municipio vitimas max_vitimas) m)"

definition criar_mapa_calor ::
  "platform \<Rightarrow> (pystr \<rightharpoonup> coords) \<Rightarrow> dataframe \<Rightarrow> pystr \<Rightarrow> pystr \<Rightarrow> int option \<Rightarrow> int option
     \<Rightarrow> int \<Rightarrow> error + folium_map" where
  \<comment> \<open>the table \<open>COORDENADAS_MUNICIPIOS\<close> of the module \<open>coordenadas\<close> is a parameter.
      The empty list is \<open>len(df_mapa_agg) == 0\<close> (lines 44 and 45); \<open>max_vitimas\<close> is
      \<open>df_mapa_agg[col_vitimas].max()\<close> (line 47)\<close>
  "criar_mapa_calor p COORDENADAS_MUNICIPIOS df col_municipio col_vitimas ano mes top_n =
     (case df_mapa_agg p (df_mapa df ano mes) col_municipio col_vitimas top_n of
        Inl e \<Rightarrow> Inl e
      | Inr agg \<Rightarrow>
          let m = folium_Map [float_lit (- (80476 / 10000)), float_lit (- (358770 / 10000))] 7
                    (str ''OpenStreetMap'')
          in case agg of
               [] \<Rightarrow> Inr m
             | row # rest \<Rightarrow>
                 let max_vitimas = fold max (map snd rest) (snd row)
                 in Inr (add_child legend_html
                           (fold (loop_body p COORDENADAS_MUNICIPIOS max_vitimas) agg m)))"

section \<open>Notions of the specification\<close>

text \<open>
  The groups of the kept top-N whose normalized name has a coordinate (the matched
  groups), the marker of one group, and the four tiers that the legend of the source
  gives to the four colours.
\<close>

definition matched ::
  "platform \<Rightarrow> (pystr \<rightharpoonup> coords) \<Rightarrow> (pystr \<times> int) list \<Rightarrow> (pystr \<times> int) list" where
  "matched p C agg = filter (\<lambda>row. C (municipio_upper p (fst row)) \<noteq> None) agg"

definition group_circles ::
  "platform \<Rightarrow> (pystr \<rightharpoonup> coords) \<Rightarrow> int \<Rightarrow> pystr \<times> int \<Rightarrow> circle list" where
  "group_circles p C mx row =
     (case C (municipio_upper p (fst row)) of
        None \<Rightarrow> []
      | Some c \<Rightarrow> [folium_Circle c (fst row) (snd row) mx])"

datatype tier = Low | Medium | High | Very_high

fun tier_rank :: "tier \<Rightarrow> nat" where
  "tier_rank Low = 0"
| "tier_rank Medium = 1"
| "tier_rank High = 2"
| "tier_rank Very_high = 3"

definition tier_of_color :: "pystr \<Rightarrow> tier option" where
  \<comment> \<open>the legend, lines 91 to 94: Muito Alta, Alta, Media, Baixa\<close>
  "tier_of_color c =
     (if c = str ''#8B0000'' then Some Very_high
      else if c = str ''#DC143C'' then Some High
      else if c = str ''#FF6347'' then Some Medium
      else if c = str ''#FFA07A'' then Some Low
      else None)"

definition default_center :: "pyfloat list" where
  \<comment> \<open>the location of line 42\<close>
  "default_center = [float_lit (- (80476 / 10000)), float_lit (- (358770 / 10000))]"

section \<open>Example inputs\<close>

definition record_of :: "pystr \<Rightarrow> pystr \<Rightarrow> pystr \<Rightarrow> 64 word \<Rightarrow> row" where
  \<comment> \<open>a record with a municipality and a count\<close>
  "record_of col_municipio municipio col_vitimas vitimas =
     \<lparr>text_cells = [col_municipio \<mapsto> municipio],
      int_cells = (\<lambda>_. 0)(col_vitimas := vitimas)\<rparr>"

definition latin_upper :: "nat \<Rightarrow> nat" where
  "latin_upper c = (if 224 \<le> c \<and> c \<le> 254 \<and> c \<noteq> 247 then c - 32 else ascii_upper c)"

definition example_platform :: platform where
  \<comment> \<open>an example value of the parameters: on the code points 224 to 254 (the accented
      lower-case letters of Latin-1) \<open>unicode_upper\<close> is the mapping of Python, on
      other code points outside ASCII it changes nothing; groups of equal sum stay in
      the order of their keys\<close>
  "example_platform = \<lparr>unicode_upper = map latin_upper, tie_order = (\<lambda>g. g)\<rparr>"

definition empty_frame :: dataframe where
  "empty_frame = \<lparr>columns = [str ''MUNICIPIO'', str ''TOTAL''], rows = []\<rparr>"

definition scenario_frame :: dataframe where
  "scenario_frame =
     \<lparr>columns = [str ''municipio'', str ''total''],
      rows = [record_of (str ''municipio'') (str ''RECIFE'') (str ''total'') 100,
              record_of (str ''municipio'') (str ''OLINDA'') (str ''total'') 40,
              record_of (str ''municipio'') (str ''ATLANTIS'') (str ''total'') 10]\<rparr>"

definition recife :: coords where
  "recife = \<lparr>lat = float_lit (- (80539 / 10000)), lon = float_lit (- (348811 / 10000))\<rparr>"

definition olinda :: coords where
  "olinda = \<lparr>lat = float_lit (- (80089 / 10000)), lon = float_lit (- (348553 / 10000))\<rparr>"

definition itambe :: coords where
  "itambe = \<lparr>lat = float_lit (- (74103 / 10000)), lon = float_lit (- (351128 / 10000))\<rparr>"

definition scenario_coords :: "pystr \<rightharpoonup> coords" where
  "scenario_coords = [str ''RECIFE'' \<mapsto> recife, str ''OLINDA'' \<mapsto> olinda]"

definition scenario_map :: folium_map where
  \<comment> \<open>the map of the scenario: a circle for RECIFE and one for OLINDA, and the legend\<close>
  "scenario_map =
     \<lparr>map_location = default_center, zoom_start = 7, tiles = str ''OpenStreetMap'',
      circles =
        [folium_Circle recife (str ''RECIFE'') 100 100,
         folium_Circle olinda (str ''OLINDA'') 40 100],
      html = [legend_html]\<rparr>"

definition zero_frame :: dataframe where
  "zero_frame =
     \<lparr>columns = [str ''MUNICIPIO'', str ''TOTAL''],
      rows = [record_of (str ''MUNICIPIO'') (str ''RECIFE'') (str ''TOTAL'') 0]\<rparr>"

definition boundary_frame :: dataframe where
  "boundary_frame =
     \<lparr>columns = [str ''MUNICIPIO'', str ''TOTAL''],
      rows = [record_of (str ''MUNICIPIO'') (str ''RECIFE'') (str ''TOTAL'') 90,
              record_of (str ''MUNICIPIO'') (str ''OLINDA'') (str ''TOTAL'') 63]\<rparr>"


definition lookup_miss_frame :: dataframe where
  \<comment> \<open>names in lower case, one with a space at the end\<close>
  "lookup_miss_frame =
     \<lparr>columns = [str ''MUNICIPIO'', str ''TOTAL''],
      rows = [record_of (str ''MUNICIPIO'') (str ''olinda'') (str ''TOTAL'') 40,
              record_of (str ''MUNICIPIO'') (str ''atlantis '') (str ''TOTAL'') 100]\<rparr>"

definition accented_frame :: dataframe where
  \<comment> \<open>a name between spaces, and a name in lower case that ends with the letter e with
      acute accent (233) and a no-break space (160)\<close>
  "accented_frame =
     \<lparr>columns = [str ''MUNICIPIO'', str ''TOTAL''],
      rows = [record_of (str ''MUNICIPIO'') (str '' Recife '') (str ''TOTAL'') 100,
              record_of (str ''MUNICIPIO'') (str ''itamb'' @ [233, 160]) (str ''TOTAL'') 30,
              record_of (str ''MUNICIPIO'') (str ''ATLANTIS'') (str ''TOTAL'') 10]\<rparr>"

definition accented_coords :: "pystr \<rightharpoonup> coords" where
  \<comment> \<open>201 is the capital letter E with acute accent\<close>
  "accented_coords = [str ''RECIFE'' \<mapsto> recife, str ''ITAMB'' @ [201] \<mapsto> itambe]"

definition unresolved_frame :: dataframe where
  "unresolved_frame =
     \<lparr>columns = [str ''MUNICIPIO'', str ''TOTAL''],
      rows = [record_of (str ''MUNICIPIO'') (str ''atlantis'') (str ''TOTAL'') 5,
              record_of (str ''MUNICIPIO'') (str '' Eldorado '') (str ''TOTAL'') 3]\<rparr>"

section \<open>Rounding to binary64\<close>

lemma ilog2_ge1:
  assumes "1 \<le> a"
  shows "power_int 2 (ilog2 a) \<le> a \<and> a < power_int 2 (ilog2 a + 1)"
proof -
  let ?n = "\<lfloor>a\<rfloor>"
  have n: "0 < ?n" using assms by simp
  have b: "2 ^ nat (bitlen ?n - 1) \<le> ?n \<and> ?n < 2 ^ nat (bitlen ?n)"
    using bitlen_bounds [OF n] .
  have b1: "1 \<le> bitlen ?n" using n by (simp add: bitlen_alt_def)
  have il: "ilog2 a = bitlen ?n - 1" using assms by (simp add: ilog2_def)
  have lo: "(2::rat) ^ nat (bitlen ?n - 1) \<le> of_int ?n"
    using b by (metis of_int_le_iff of_int_numeral of_int_power)
  have "of_int ?n \<le> a" by simp
  with lo have lo': "(2::rat) ^ nat (bitlen ?n - 1) \<le> a" by linarith
  have "?n + 1 \<le> 2 ^ nat (bitlen ?n)" using b by simp
  then have "(of_int (?n + 1) :: rat) \<le> of_int (2 ^ nat (bitlen ?n))"
    by (simp only: of_int_le_iff)
  then have hi: "(of_int ?n + 1 :: rat) \<le> 2 ^ nat (bitlen ?n)" by simp
  have "a < of_int ?n + 1" by linarith
  with hi have hi': "a < 2 ^ nat (bitlen ?n)" by linarith
  show ?thesis using lo' hi' b1 il by (simp add: power_int_def)
qed

lemma ilog2_lt1:
  assumes "0 < a" "a < 1"
  shows "power_int 2 (ilog2 a) \<le> a \<and> a < power_int 2 (ilog2 a + 1)"
proof -
  let ?y = "1 / a"
  let ?n = "\<lceil>?y\<rceil> - 1"
  let ?k = "bitlen ?n"
  have y1: "1 < ?y" using assms by simp
  then have "1 < \<lceil>?y\<rceil>" by (simp add: less_ceiling_iff)
  then have n: "0 < ?n" by simp
  have b: "2 ^ nat (?k - 1) \<le> ?n \<and> ?n < 2 ^ nat ?k"
    using bitlen_bounds [OF n] .
  have k1: "1 \<le> ?k" using n by (simp add: bitlen_alt_def)
  have il: "ilog2 a = - ?k" using assms by (simp add: ilog2_def)
  have "\<lceil>?y\<rceil> \<le> 2 ^ nat ?k" using b by simp
  then have "?y \<le> of_int (2 ^ nat ?k)" by (simp only: ceiling_le_iff)
  then have yk: "?y \<le> 2 ^ nat ?k" by simp
  have lo: "1 / 2 ^ nat ?k \<le> a"
  proof -
    have "1 \<le> a * 2 ^ nat ?k" using yk assms by (simp add: field_simps)
    then show ?thesis by (simp add: field_simps)
  qed
  have "2 ^ nat (?k - 1) < \<lceil>?y\<rceil>" using b by simp
  then have "of_int (2 ^ nat (?k - 1)) < ?y" by (simp only: less_ceiling_iff)
  then have yk': "2 ^ nat (?k - 1) < ?y" by simp
  have hi: "a < 1 / 2 ^ nat (?k - 1)"
  proof -
    have "a * 2 ^ nat (?k - 1) < 1" using yk' assms by (simp add: field_simps)
    then show ?thesis by (simp add: field_simps)
  qed
  have e1: "power_int 2 (- ?k) = (1::rat) / 2 ^ nat ?k"
    using k1 by (simp add: power_int_def field_simps)
  have e2: "power_int 2 (- ?k + 1) = (1::rat) / 2 ^ nat (?k - 1)"
  proof (cases "?k = 1")
    case True then show ?thesis by simp
  next
    case False
    with k1 have "- ?k + 1 < 0" by simp
    moreover have "nat (- (- ?k + 1)) = nat (?k - 1)" by simp
    ultimately show ?thesis by (simp add: power_int_def field_simps)
  qed
  show ?thesis using lo hi e1 e2 il by simp
qed

lemma ilog2_bounds:
  assumes "0 < a"
  shows "power_int 2 (ilog2 a) \<le> a" and "a < power_int 2 (ilog2 a + 1)"
  using ilog2_ge1 [of a] ilog2_lt1 [of a] assms by (cases "1 \<le> a"; simp)+

lemma ilog2_unique:
  assumes "power_int 2 k \<le> a" "a < power_int 2 (k + 1)"
  shows "ilog2 a = k"
proof -
  have pos: "0 < a"
  proof -
    have "(0::rat) < power_int 2 k" by simp
    with assms(1) show ?thesis by linarith
  qed
  note b = ilog2_bounds [OF pos]
  have lt1: "power_int (2::rat) k < power_int 2 (ilog2 a + 1)" using assms(1) b(2) by linarith
  have 1: "k < ilog2 a + 1"
  proof (rule ccontr)
    assume "\<not> k < ilog2 a + 1"
    then have "ilog2 a + 1 \<le> k" by simp
    then have "power_int (2::rat) (ilog2 a + 1) \<le> power_int 2 k"
      by (intro power_int_increasing) simp_all
    with lt1 show False by linarith
  qed
  have lt2: "power_int (2::rat) (ilog2 a) < power_int 2 (k + 1)" using assms(2) b(1) by linarith
  have 2: "ilog2 a < k + 1"
  proof (rule ccontr)
    assume "\<not> ilog2 a < k + 1"
    then have "k + 1 \<le> ilog2 a" by simp
    then have "power_int (2::rat) (k + 1) \<le> power_int 2 (ilog2 a)"
      by (intro power_int_increasing) simp_all
    with lt2 show False by linarith
  qed
  from 1 2 show ?thesis by simp
qed

lemma ilog2_mono:
  assumes "0 < a" "a \<le> b"
  shows "ilog2 a \<le> ilog2 b"
proof (rule ccontr)
  assume "\<not> ilog2 a \<le> ilog2 b"
  then have "ilog2 b + 1 \<le> ilog2 a" by simp
  then have "power_int (2::rat) (ilog2 b + 1) \<le> power_int 2 (ilog2 a)"
    by (intro power_int_increasing) simp_all
  moreover have "b < power_int 2 (ilog2 b + 1)" using assms by (intro ilog2_bounds) simp
  moreover have "power_int 2 (ilog2 a) \<le> a" using assms by (intro ilog2_bounds)
  ultimately show False using assms by linarith
qed

lemma round_half_even_of_int: "round_half_even (of_int n) = n"
  by (simp add: round_half_even_def)

lemma round_half_even_range: "\<lfloor>x\<rfloor> \<le> round_half_even x \<and> round_half_even x \<le> \<lfloor>x\<rfloor> + 1"
  by (simp add: round_half_even_def Let_def)

lemma round_half_even_mono:
  assumes "x \<le> y"
  shows "round_half_even x \<le> round_half_even y"
proof (cases "\<lfloor>x\<rfloor> = \<lfloor>y\<rfloor>")
  case True
  then show ?thesis using assms by (auto simp: round_half_even_def Let_def)
next
  case False
  with assms have "\<lfloor>x\<rfloor> < \<lfloor>y\<rfloor>" by (simp add: floor_mono order.strict_iff_order)
  then show ?thesis
    using round_half_even_range [of x] round_half_even_range [of y] by linarith
qed

lemma round_half_even_le: "x \<le> of_int n \<Longrightarrow> round_half_even x \<le> n"
  using round_half_even_mono [of x "of_int n"] by (simp add: round_half_even_of_int)

lemma round_half_even_ge: "of_int n \<le> x \<Longrightarrow> n \<le> round_half_even x"
  using round_half_even_mono [of "of_int n" x] by (simp add: round_half_even_of_int)


lemma round_half_even_near:
  assumes "\<bar>x - of_int m\<bar> < 1 / 2"
  shows "round_half_even x = m"
proof -
  have "of_int m - 1 / 2 < x" "x < of_int m + 1 / 2" using assms by linarith+
  have "of_int (m - 1) \<le> x" using \<open>of_int m - 1 / 2 < x\<close> by simp
  then have lo: "m - 1 \<le> \<lfloor>x\<rfloor>" by (simp only: le_floor_iff)
  have "x < of_int (m + 1)" using \<open>x < of_int m + 1 / 2\<close> by simp
  then have hi: "\<lfloor>x\<rfloor> < m + 1" by (simp only: floor_less_iff)
  from lo hi consider "\<lfloor>x\<rfloor> = m" | "\<lfloor>x\<rfloor> = m - 1" by linarith
  then show ?thesis
  proof cases
    case 1
    then show ?thesis using \<open>x < of_int m + 1 / 2\<close> by (simp add: round_half_even_def Let_def)
  next
    case 2
    then show ?thesis using \<open>of_int m - 1 / 2 < x\<close> by (simp add: round_half_even_def Let_def)
  qed
qed

lemma exponent_ge: "- 1074 \<le> exponent x"
  by (simp add: exponent_def)

lemma exponent_upper:
  assumes "x \<noteq> 0"
  shows "\<bar>x\<bar> < power_int 2 (exponent x + 53)"
proof -
  have pos: "0 < \<bar>x\<bar>" using assms by simp
  have "ilog2 \<bar>x\<bar> + 1 \<le> exponent x + 53" by (simp add: exponent_def)
  then have "power_int (2::rat) (ilog2 \<bar>x\<bar> + 1) \<le> power_int 2 (exponent x + 53)"
    by (intro power_int_increasing) simp_all
  with ilog2_bounds(2) [OF pos] show ?thesis by linarith
qed

lemma exponent_lower:
  assumes "x \<noteq> 0" "- 1074 < exponent x"
  shows "power_int 2 (exponent x + 52) \<le> \<bar>x\<bar>"
proof -
  have pos: "0 < \<bar>x\<bar>" using assms by simp
  have "exponent x = ilog2 \<bar>x\<bar> - 52" using assms(2) by (simp add: exponent_def max_def split: if_splits)
  then have "exponent x + 52 = ilog2 \<bar>x\<bar>" by simp
  with ilog2_bounds(1) [OF pos] show ?thesis by simp
qed

lemma exponent_mono:
  assumes "x \<noteq> 0" "\<bar>x\<bar> \<le> \<bar>y\<bar>"
  shows "exponent x \<le> exponent y"
proof -
  have "ilog2 \<bar>x\<bar> \<le> ilog2 \<bar>y\<bar>" using assms by (intro ilog2_mono) simp_all
  then show ?thesis by (simp add: exponent_def)
qed

lemma power_int_split: "power_int (2::rat) (e + 53) = 2 ^ 53 * power_int 2 e"
  "power_int (2::rat) (e + 52) = 2 ^ 52 * power_int 2 e"
  by (simp_all add: power_int_add)

lemma nearest_abs_le:
  "\<bar>nearest x\<bar> \<le> power_int 2 (exponent x + 53)"
proof (cases "x = 0")
  case True then show ?thesis by (simp add: nearest_def)
next
  case False
  let ?p = "power_int (2::rat) (exponent x)"
  have p: "0 < ?p" by simp
  have "\<bar>x\<bar> < 2 ^ 53 * ?p" using exponent_upper [OF False] by (simp add: power_int_split)
  then have "\<bar>x\<bar> / ?p < 2 ^ 53" using p by (simp add: pos_divide_less_eq)
  then have a: "\<bar>x / ?p\<bar> < 2 ^ 53" using p by simp
  have "x / ?p \<le> 2 ^ 53" using a abs_ge_self [of "x / ?p"] by linarith
  then have "x / ?p \<le> of_int (2 ^ 53)" by simp
  then have hi: "round_half_even (x / ?p) \<le> 2 ^ 53" by (rule round_half_even_le)
  have "- (2 ^ 53) \<le> x / ?p" using a abs_ge_minus_self [of "x / ?p"] by linarith
  then have "of_int (- (2 ^ 53)) \<le> x / ?p" by simp
  then have lo: "- (2 ^ 53) \<le> round_half_even (x / ?p)" by (rule round_half_even_ge)
  from lo hi have "\<bar>round_half_even (x / ?p)\<bar> \<le> 2 ^ 53" by linarith
  then have "(of_int \<bar>round_half_even (x / ?p)\<bar> :: rat) \<le> of_int (2 ^ 53)"
    by (simp only: of_int_le_iff)
  then have "\<bar>of_int (round_half_even (x / ?p)) :: rat\<bar> \<le> 2 ^ 53" by simp
  then have "\<bar>of_int (round_half_even (x / ?p)) :: rat\<bar> * ?p \<le> 2 ^ 53 * ?p"
    using p by (intro mult_right_mono) simp_all
  then show ?thesis using False p by (simp add: nearest_def power_int_split abs_mult)
qed

lemma nearest_pos_ge:
  assumes "0 < x" "- 1074 < exponent x"
  shows "power_int 2 (exponent x + 52) \<le> nearest x"
proof -
  let ?p = "power_int (2::rat) (exponent x)"
  have p: "0 < ?p" by simp
  have "2 ^ 52 * ?p \<le> x" using exponent_lower [of x] assms by (simp add: power_int_split)
  then have "of_int (2 ^ 52) \<le> x / ?p" using p by (simp add: pos_le_divide_eq)
  then have "2 ^ 52 \<le> round_half_even (x / ?p)" by (rule round_half_even_ge)
  then have "(of_int (2 ^ 52) :: rat) \<le> of_int (round_half_even (x / ?p))"
    by (simp only: of_int_le_iff)
  then have "of_int (2 ^ 52) * ?p \<le> of_int (round_half_even (x / ?p)) * ?p"
    using p by (intro mult_right_mono) simp_all
  then show ?thesis using assms by (simp add: nearest_def power_int_split)
qed

lemma nearest_neg_le:
  assumes "x < 0" "- 1074 < exponent x"
  shows "nearest x \<le> - power_int 2 (exponent x + 52)"
proof -
  let ?p = "power_int (2::rat) (exponent x)"
  have p: "0 < ?p" by simp
  have "2 ^ 52 * ?p \<le> - x" using exponent_lower [of x] assms by (simp add: power_int_split)
  then have "2 ^ 52 \<le> (- x) / ?p" by (simp only: pos_le_divide_eq [OF p])
  then have "x / ?p \<le> - (2 ^ 52)" by simp
  then have "x / ?p \<le> of_int (- (2 ^ 52))" by simp
  then have "round_half_even (x / ?p) \<le> - (2 ^ 52)" by (rule round_half_even_le)
  then have "(of_int (round_half_even (x / ?p)) :: rat) \<le> of_int (- (2 ^ 52))"
    by (simp only: of_int_le_iff)
  then have "of_int (round_half_even (x / ?p)) * ?p \<le> of_int (- (2 ^ 52)) * ?p"
    using p by (intro mult_right_mono) simp_all
  then show ?thesis using assms by (simp add: nearest_def power_int_split)
qed

lemma nearest_nonneg: "0 \<le> x \<Longrightarrow> 0 \<le> nearest x"
proof -
  assume "0 \<le> x"
  then have "of_int 0 \<le> x / power_int 2 (exponent x)" by simp
  then have "0 \<le> round_half_even (x / power_int 2 (exponent x))" by (rule round_half_even_ge)
  then show ?thesis by (simp add: nearest_def)
qed

lemma nearest_nonpos: "x \<le> 0 \<Longrightarrow> nearest x \<le> 0"
proof -
  assume "x \<le> 0"
  then have "x / power_int 2 (exponent x) \<le> of_int 0" by (simp add: divide_le_0_iff)
  then have "round_half_even (x / power_int 2 (exponent x)) \<le> 0" by (rule round_half_even_le)
  then show ?thesis by (simp add: nearest_def mult_le_0_iff)
qed

lemma nearest_same_exponent:
  assumes "x \<le> y" "x \<noteq> 0" "y \<noteq> 0" "exponent x = exponent y"
  shows "nearest x \<le> nearest y"
proof -
  let ?p = "power_int (2::rat) (exponent y)"
  have p: "0 < ?p" by simp
  have "x / ?p \<le> y / ?p" using assms(1) p by (simp add: divide_right_mono)
  then have "round_half_even (x / ?p) \<le> round_half_even (y / ?p)" by (rule round_half_even_mono)
  then have "(of_int (round_half_even (x / ?p)) :: rat) \<le> of_int (round_half_even (y / ?p))"
    by (simp only: of_int_le_iff)
  then have "of_int (round_half_even (x / ?p)) * ?p \<le> of_int (round_half_even (y / ?p)) * ?p"
    using p by (intro mult_right_mono) simp_all
  then show ?thesis using assms by (simp add: nearest_def)
qed

lemma nearest_mono:
  assumes "x \<le> y"
  shows "nearest x \<le> nearest y"
proof -
  consider "x \<le> 0" "0 \<le> y" | "0 < x" | "y < 0" using assms by linarith
  then show ?thesis
  proof cases
    case 1
    then show ?thesis using nearest_nonpos [of x] nearest_nonneg [of y] by linarith
  next
    case 2
    then have y: "0 < y" using assms by linarith
    have le: "exponent x \<le> exponent y" using 2 y assms by (intro exponent_mono) simp_all
    show ?thesis
    proof (cases "exponent x = exponent y")
      case True
      then show ?thesis using nearest_same_exponent [of x y] assms 2 y by simp
    next
      case False
      with le have lt: "exponent x + 53 \<le> exponent y + 52" by simp
      have "- 1074 < exponent y" using False le exponent_ge [of x] by linarith
      then have a: "power_int 2 (exponent y + 52) \<le> nearest y" using y by (rule nearest_pos_ge [rotated])
      have b: "nearest x \<le> power_int 2 (exponent x + 53)" using nearest_abs_le [of x] by linarith
      have "power_int (2::rat) (exponent x + 53) \<le> power_int 2 (exponent y + 52)"
        using lt by (intro power_int_increasing) simp_all
      with a b show ?thesis by linarith
    qed
  next
    case 3
    then have x: "x < 0" using assms by linarith
    have le: "exponent y \<le> exponent x" using 3 x assms by (intro exponent_mono) simp_all
    show ?thesis
    proof (cases "exponent x = exponent y")
      case True
      then show ?thesis using nearest_same_exponent [of x y] assms 3 x by simp
    next
      case False
      with le have lt: "exponent y + 53 \<le> exponent x + 52" by simp
      have "- 1074 < exponent x" using False le exponent_ge [of y] by linarith
      then have a: "nearest x \<le> - power_int 2 (exponent x + 52)" using x by (rule nearest_neg_le [rotated])
      have b: "- power_int 2 (exponent y + 53) \<le> nearest y" using nearest_abs_le [of y] by linarith
      have "power_int (2::rat) (exponent y + 53) \<le> power_int 2 (exponent x + 52)"
        using lt by (intro power_int_increasing) simp_all
      with a b show ?thesis by linarith
    qed
  qed
qed

lemma exponent_eq:
  assumes "power_int 2 (e + 52) \<le> \<bar>x\<bar>" "\<bar>x\<bar> < power_int 2 (e + 53)" "- 1074 \<le> e"
  shows "exponent x = e"
proof -
  have "\<bar>x\<bar> < power_int 2 (e + 52 + 1)" using assms(2) by (simp add: add.commute add.left_commute)
  with assms(1) have "ilog2 \<bar>x\<bar> = e + 52" by (rule ilog2_unique)
  then show ?thesis using assms(3) by (simp add: exponent_def)
qed

lemma nearest_cert:
  assumes "power_int 2 (e + 52) \<le> \<bar>x\<bar>" "\<bar>x\<bar> < power_int 2 (e + 53)" "- 1074 \<le> e"
    and "\<bar>x / power_int 2 e - of_int m\<bar> < 1 / 2"
  shows "nearest x = of_int m * power_int 2 e"
proof -
  have e: "exponent x = e" using assms(1-3) by (rule exponent_eq)
  have "(0::rat) < power_int 2 (e + 52)" by simp
  with assms(1) have "0 < \<bar>x\<bar>" by linarith
  then have nz: "x \<noteq> 0" by simp
  have "round_half_even (x / power_int 2 e) = m" using assms(4) by (rule round_half_even_near)
  then show ?thesis using e nz by (simp add: nearest_def)
qed

lemma round_double_nearest:
  assumes "\<bar>nearest x\<bar> < 2 ^ 1024"
  shows "round_double x = Finite (nearest x)"
  using assms by (auto simp: round_double_def Let_def)

lemma nearest_no_overflow:
  assumes "exponent x \<le> 970"
  shows "\<bar>nearest x\<bar> < 2 ^ 1024"
proof -
  have "exponent x + 53 \<le> 1023" using assms by simp
  then have "power_int (2::rat) (exponent x + 53) \<le> power_int 2 1023"
    by (intro power_int_increasing) simp_all
  moreover have "power_int (2::rat) 1023 < 2 ^ 1024" by simp
  ultimately show ?thesis using nearest_abs_le [of x] by linarith
qed

lemma round_double_cert:
  assumes "power_int 2 (e + 52) \<le> \<bar>x\<bar>" "\<bar>x\<bar> < power_int 2 (e + 53)" "- 1074 \<le> e" "e \<le> 970"
    and "\<bar>x / power_int 2 e - of_int m\<bar> < 1 / 2"
  shows "round_double x = Finite (of_int m * power_int 2 e)"
proof -
  have e: "exponent x = e" using assms(1-3) by (rule exponent_eq)
  have "\<bar>nearest x\<bar> < 2 ^ 1024" using e assms(4) by (intro nearest_no_overflow) simp
  then have "round_double x = Finite (nearest x)" by (rule round_double_nearest)
  also have "nearest x = of_int m * power_int 2 e" using assms(1-3,5) by (rule nearest_cert)
  finally show ?thesis .
qed

lemma float_gt_round_double_mono:
  assumes "x \<le> y" "float_gt (round_double x) t"
  shows "float_gt (round_double y) t"
  using assms nearest_mono [OF assms(1)]
  by (cases t) (auto simp: round_double_def Let_def split: if_splits)

lemma nearest_exact:
  assumes "x = of_int m * power_int 2 e" "\<bar>m\<bar> < 2 ^ 53" "- 1074 \<le> e"
  shows "nearest x = x"
proof (cases "x = 0")
  case True then show ?thesis by (simp add: nearest_def)
next
  case False
  define E where "E = exponent x"
  have pos: "0 < \<bar>x\<bar>" using False by simp
  have "(of_int \<bar>m\<bar> :: rat) < of_int (2 ^ 53)" using assms(2) by (simp only: of_int_less_iff)
  then have m: "\<bar>of_int m :: rat\<bar> < 2 ^ 53" by simp
  have "\<bar>x\<bar> = \<bar>of_int m :: rat\<bar> * power_int 2 e" by (simp add: assms(1) abs_mult)
  also have "\<dots> < 2 ^ 53 * power_int 2 e" using m by (intro mult_strict_right_mono) simp_all
  finally have ub: "\<bar>x\<bar> < power_int 2 (e + 53)" by (simp add: power_int_split)
  have il: "ilog2 \<bar>x\<bar> < e + 53"
  proof (rule ccontr)
    assume "\<not> ilog2 \<bar>x\<bar> < e + 53"
    then have "e + 53 \<le> ilog2 \<bar>x\<bar>" by simp
    then have "power_int (2::rat) (e + 53) \<le> power_int 2 (ilog2 \<bar>x\<bar>)"
      by (intro power_int_increasing) simp_all
    with ilog2_bounds(1) [OF pos] ub show False by linarith
  qed
  then have le: "E \<le> e" using assms(3) by (simp add: exponent_def E_def)
  define d where "d = nat (e - E)"
  have e: "e = E + int d" using le by (simp add: d_def)
  have pe: "power_int (2::rat) e = 2 ^ d * power_int 2 E"
    by (subst e) (simp add: power_int_add)
  have "x = of_int m * (2 ^ d * power_int 2 E)" using assms(1) by (simp only: pe)
  then have x: "x = of_int (m * 2 ^ d) * power_int 2 E" by simp
  have "x / power_int 2 E = of_int (m * 2 ^ d) * power_int 2 E / power_int 2 E"
    using x by simp
  also have "\<dots> = of_int (m * 2 ^ d)" by simp
  finally have q: "x / power_int 2 E = of_int (m * 2 ^ d)" .
  have "round_half_even (x / power_int 2 E) = m * 2 ^ d"
    by (simp only: q round_half_even_of_int)
  then have "nearest x = of_int (m * 2 ^ d) * power_int 2 E"
    using False by (simp add: nearest_def E_def)
  with x show ?thesis by simp
qed

lemma round_double_exact:
  assumes "x = of_int m * power_int 2 e" "\<bar>m\<bar> < 2 ^ 53" "- 1074 \<le> e" "\<bar>x\<bar> < 2 ^ 1024"
  shows "round_double x = Finite x"
proof -
  have "nearest x = x" using assms(1-3) by (rule nearest_exact)
  then show ?thesis using assms(4) round_double_nearest [of x] by simp
qed

lemma float_of_int_exact:
  assumes "\<bar>i\<bar> < 2 ^ 53"
  shows "float_of_int i = Finite (of_int i)"
proof -
  have "(of_int \<bar>i\<bar> :: rat) < of_int (2 ^ 53)" using assms by (simp only: of_int_less_iff)
  then have "\<bar>of_int i :: rat\<bar> < 2 ^ 53" by simp
  moreover have "(2::rat) ^ 53 < 2 ^ 1024" by simp
  ultimately have "\<bar>of_int i :: rat\<bar> < 2 ^ 1024" by linarith
  then show ?thesis
    unfolding float_of_int_def using assms
    by (intro round_double_exact [of _ i 0]) simp_all
qed

lemma float_gt_float_of_int_mono:
  assumes "i \<le> j" "float_gt (float_of_int i) t"
  shows "float_gt (float_of_int j) t"
  using assms unfolding float_of_int_def
  by (intro float_gt_round_double_mono [of "of_int i" "of_int j"]) simp_all



section \<open>The loop and the returned map\<close>

lemma loop_body_circles:
  "circles (loop_body p C mx row m) = circles m @ group_circles p C mx row"
  by (simp add: loop_body_def group_circles_def add_to_def Let_def split: option.splits)

lemma loop_body_fixed:
  "html (loop_body p C mx row m) = html m"
  "map_location (loop_body p C mx row m) = map_location m"
  "zoom_start (loop_body p C mx row m) = zoom_start m"
  "tiles (loop_body p C mx row m) = tiles m"
  by (simp_all add: loop_body_def add_to_def Let_def split: option.splits)

lemma fold_loop_body_circles:
  "circles (fold (loop_body p C mx) agg m) = circles m @ concat (map (group_circles p C mx) agg)"
  by (induction agg arbitrary: m) (simp_all add: loop_body_circles)

lemma fold_loop_body_fixed:
  "html (fold (loop_body p C mx) agg m) = html m"
  "map_location (fold (loop_body p C mx) agg m) = map_location m"
  "zoom_start (fold (loop_body p C mx) agg m) = zoom_start m"
  "tiles (fold (loop_body p C mx) agg m) = tiles m"
  by (induction agg arbitrary: m) (simp_all add: loop_body_fixed)

lemma concat_group_circles:
  "concat (map (group_circles p C mx) agg) =
     map (\<lambda>row. folium_Circle (the (C (municipio_upper p (fst row)))) (fst row) (snd row) mx)
       (matched p C agg)"
  by (induction agg) (auto simp: group_circles_def matched_def split: option.splits)

lemma fold_max_Max: "fold max xs (v::int) = Max (set (v # xs))"
  by (rule Max.set_eq_fold [symmetric])

lemma criar_empty:
  assumes "df_mapa_agg p (df_mapa df ano mes) ck cv n = Inr []"
  shows "criar_mapa_calor p C df ck cv ano mes n =
           Inr (folium_Map default_center 7 (str ''OpenStreetMap''))"
  using assms by (simp add: criar_mapa_calor_def default_center_def)

lemma criar_nonempty:
  assumes "df_mapa_agg p (df_mapa df ano mes) ck cv n = Inr agg" "agg \<noteq> []"
  shows "criar_mapa_calor p C df ck cv ano mes n =
           Inr (add_child legend_html
                  (fold (loop_body p C (Max (snd ` set agg))) agg
                     (folium_Map default_center 7 (str ''OpenStreetMap''))))"
proof -
  obtain row rest where agg: "agg = row # rest" using assms(2) by (cases agg) auto
  have "fold max (map snd rest) (snd row) = Max (snd ` set agg)"
    by (simp only: fold_max_Max agg list.set(2) [symmetric] list.map(2) [symmetric] set_map)
  then show ?thesis using assms(1)
    by (simp add: criar_mapa_calor_def default_center_def agg Let_def)
qed

lemma criar_circles:
  assumes "df_mapa_agg p (df_mapa df ano mes) ck cv n = Inr agg"
    and "criar_mapa_calor p C df ck cv ano mes n = Inr m"
  shows "circles m = concat (map (group_circles p C (Max (snd ` set agg))) agg)"
proof (cases "agg = []")
  case True
  then show ?thesis using assms criar_empty [of p df ano mes ck cv n C]
    by (auto simp: folium_Map_def)
next
  case False
  then show ?thesis using assms criar_nonempty [of p df ano mes ck cv n agg C]
    by (auto simp: add_child_def fold_loop_body_circles folium_Map_def)
qed

lemma criar_total:
  assumes "df_mapa_agg p (df_mapa df ano mes) ck cv n = Inr agg"
  shows "\<exists>m. criar_mapa_calor p C df ck cv ano mes n = Inr m"
  using criar_empty [of p df ano mes ck cv n C] criar_nonempty [of p df ano mes ck cv n agg C] assms
  by (cases "agg = []") auto

section \<open>The aggregated frame\<close>

lemma columns_filter_eq: "columns (filter_eq col v df) = columns df"
  by (simp add: filter_eq_def)

lemma columns_df_mapa: "columns (df_mapa df ano mes) = columns df"
  by (simp add: df_mapa_def Let_def columns_filter_eq split: option.splits)

lemma df_mapa_None: "df_mapa df None None = df"
  by (simp add: df_mapa_def)

lemma rows_df_mapa: "\<exists>P. rows (df_mapa df ano mes) = filter P (rows df)"
proof -
  have f: "\<exists>P. rows (filter_eq col v d) = filter P (rows d)" for col v d
    by (auto simp: filter_eq_def)
  have i: "\<exists>P. rows d = filter P (rows d)" for d :: dataframe
    by (rule exI [of _ "\<lambda>_. True"]) simp
  obtain d1 where d1: "d1 = (case ano of None \<Rightarrow> df
      | Some a \<Rightarrow> if str ''ANO'' \<in> set (columns df) then filter_eq (str ''ANO'') a df else df)"
    by simp
  have "\<exists>P. rows d1 = filter P (rows df)"
    unfolding d1 using f [of "str ''ANO''" _ df] i [of df] by (auto split: option.splits)
  then obtain P where P: "rows d1 = filter P (rows df)" by blast
  have "\<exists>Q. rows (df_mapa df ano mes) = filter Q (rows d1)"
    unfolding df_mapa_def Let_def d1 [symmetric]
    using f [of "str ''MES''" _ d1] i [of d1] by (auto split: option.splits)
  then obtain Q where "rows (df_mapa df ano mes) = filter Q (rows d1)" by blast
  then have "rows (df_mapa df ano mes) = filter (\<lambda>r. P r \<and> Q r) (rows df)"
    by (simp add: P)
  then show ?thesis by blast
qed

lemma df_mapa_agg_total:
  assumes "col_municipio \<in> set (columns d)" "col_vitimas \<in> set (columns d)"
  shows "\<exists>agg. df_mapa_agg p d col_municipio col_vitimas top_n = Inr agg"
  using assms by (simp add: df_mapa_agg_def groupby_sum_def Let_def)

lemma groupby_sum_distinct:
  assumes "groupby_sum d ck cv = Inr g"
  shows "distinct (map fst g)"
proof -
  from assms obtain ks where "map fst g = sort (remdups ks)"
    by (auto simp: groupby_sum_def Let_def comp_def split: if_splits)
  then show ?thesis by simp
qed

lemma head_subset: "set (head n xs) \<subseteq> set xs"
  by (auto simp: head_def dest: in_set_takeD)

lemma head_length: "0 \<le> n \<Longrightarrow> length (head n xs) \<le> nat n"
  by (simp add: head_def)

lemma head_distinct: "distinct (map f xs) \<Longrightarrow> distinct (map f (head n xs))"
  by (simp add: head_def take_map [symmetric] del: take_map)

lemma sort_values_desc_mset: "mset (sort_values_desc p g) = mset g"
  by (simp add: sort_values_desc_def)

lemma sort_values_desc_set: "set (sort_values_desc p g) = set g"
  using sort_values_desc_mset [of p g] by (rule mset_eq_setD)

lemma sort_values_desc_no_ties:
  assumes "distinct (map snd g)"
  shows "sort_values_desc p g = sort_key (\<lambda>kv. - snd kv) g"
proof -
  have inj: "inj_on (\<lambda>kv. - snd kv) (set g)"
    using assms by (auto simp: distinct_map inj_on_def)
  have "sort_key (\<lambda>kv. - snd kv) g = sort_values_desc p g"
  proof (rule sort_key_inj_key_eq [OF _ inj])
    show "mset g = mset (sort_values_desc p g)" by (simp add: sort_values_desc_mset)
    show "sorted (map (\<lambda>kv. - snd kv) (sort_values_desc p g))"
      by (simp add: sort_values_desc_def)
  qed
  then show ?thesis by simp
qed

lemma sort_values_desc_distinct:
  assumes "distinct (map fst g)"
  shows "distinct (map fst (sort_values_desc p g))"
proof -
  have "mset (map fst (sort_values_desc p g)) = mset (map fst g)"
    by (simp add: sort_values_desc_mset)
  then show ?thesis using assms by (metis distinct_count_atmost_1 set_mset_mset)
qed

lemma df_mapa_agg_Inr:
  assumes "df_mapa_agg p d ck cv n = Inr agg"
  obtains g where "groupby_sum d ck cv = Inr g" "agg = head n (sort_values_desc p g)"
  using assms by (auto simp: df_mapa_agg_def split: sum.splits)

lemma df_mapa_agg_distinct:
  assumes "df_mapa_agg p d ck cv n = Inr agg"
  shows "distinct (map fst agg)"
proof -
  from assms obtain g where g: "groupby_sum d ck cv = Inr g" "agg = head n (sort_values_desc p g)"
    by (rule df_mapa_agg_Inr)
  show ?thesis unfolding g(2)
    by (intro head_distinct sort_values_desc_distinct groupby_sum_distinct [OF g(1)])
qed

lemma df_mapa_agg_subset:
  assumes "df_mapa_agg p d ck cv n = Inr agg" "groupby_sum d ck cv = Inr g"
  shows "set agg \<subseteq> set g"
  using assms head_subset [of n "sort_values_desc p g"]
  by (auto simp: df_mapa_agg_def sort_values_desc_set)

lemma df_mapa_agg_length:
  assumes "df_mapa_agg p d ck cv n = Inr agg" "0 \<le> n"
  shows "length agg \<le> nat n"
  using assms by (auto simp: df_mapa_agg_def head_length split: sum.splits)

lemma criar_Inr_agg:
  assumes "criar_mapa_calor p C df ck cv ano mes n = Inr m"
  obtains agg where "df_mapa_agg p (df_mapa df ano mes) ck cv n = Inr agg"
  using assms by (auto simp: criar_mapa_calor_def split: sum.splits)

lemma matched_length: "length (matched p C agg) \<le> length agg"
  by (simp add: matched_def)

lemma matched_distinct: "distinct (map fst agg) \<Longrightarrow> distinct (map fst (matched p C agg))"
  by (simp add: matched_def distinct_map_filter)

lemma criar_circles_matched:
  assumes "df_mapa_agg p (df_mapa df ano mes) ck cv n = Inr agg"
    and "criar_mapa_calor p C df ck cv ano mes n = Inr m"
  shows "circles m =
           map (\<lambda>row. folium_Circle (the (C (municipio_upper p (fst row)))) (fst row) (snd row)
                        (Max (snd ` set agg)))
             (matched p C agg)"
  using criar_circles [OF assms] by (simp add: concat_group_circles)

section \<open>The int64 sum of a group\<close>

lemma sint_sum_list:
  fixes ws :: "64 word list"
  assumes "\<forall>w \<in> set ws. 0 \<le> sint w" "sum_list (map sint ws) < 2 ^ 63"
  shows "sint (sum_list ws) = sum_list (map sint ws)"
  using assms
proof (induction ws)
  case Nil
  then show ?case by simp
next
  case (Cons w ws)
  have w: "0 \<le> sint w" using Cons.prems(1) by simp
  have nn: "0 \<le> sum_list (map sint ws)"
    using Cons.prems(1) by (intro sum_list_nonneg) auto
  have "sum_list (map sint ws) < 2 ^ 63" using Cons.prems(2) w by simp
  then have ih: "sint (sum_list ws) = sum_list (map sint ws)"
    using Cons.IH Cons.prems(1) by simp
  have "sint (w + sum_list ws) = signed_take_bit (LENGTH(64) - 1) (sint w + sint (sum_list ws))"
    by (rule sint_word_ariths)
  also have "\<dots> = sint w + sum_list (map sint ws)"
    using w nn Cons.prems(2) by (simp add: ih signed_take_bit_int_eq_self)
  finally show ?case by simp
qed

lemma sum_list_filter_le:
  fixes f :: "'a \<Rightarrow> int"
  assumes "\<forall>x \<in> set xs. 0 \<le> f x"
  shows "sum_list (map f (filter P xs)) \<le> sum_list (map f xs)"
  using assms by (induction xs) auto

lemma sum_list_pos:
  fixes xs :: "int list"
  assumes "xs \<noteq> []" "\<forall>x \<in> set xs. 0 < x"
  shows "0 < sum_list xs"
  using assms by (induction xs) (auto intro: add_pos_nonneg sum_list_nonneg less_imp_le)

lemma group_values:
  "map snd (filter (\<lambda>kv. fst kv = k) (List.map_filter (entry ck cv) rs)) =
     map (\<lambda>r. int_cells r cv) (filter (\<lambda>r. text_cells r ck = Some k) rs)"
  by (induction rs) (auto simp: entry_def split: option.splits)

lemma groupby_sum_pos:
  assumes "groupby_sum d ck cv = Inr g"
    and "\<forall>r \<in> set (rows d). 0 < sint (int_cells r cv)"
    and "sum_list (map (\<lambda>r. sint (int_cells r cv)) (rows d)) < 2 ^ 63"
    and "row \<in> set g"
  shows "0 < snd row"
proof -
  define kvs where "kvs = List.map_filter (entry ck cv) (rows d)"
  have g: "g = map (\<lambda>k. (k, sint (sum_list (map snd (filter (\<lambda>kv. fst kv = k) kvs)))))
                 (sort (remdups (map fst kvs)))"
    using assms(1) by (auto simp: groupby_sum_def Let_def kvs_def split: if_splits)
  from assms(4) obtain k where k: "k \<in> fst ` set kvs"
    and row: "row = (k, sint (sum_list (map snd (filter (\<lambda>kv. fst kv = k) kvs))))"
    by (auto simp: g)
  define rs where "rs = filter (\<lambda>r. text_cells r ck = Some k) (rows d)"
  define ws where "ws = map (\<lambda>r. int_cells r cv) rs"
  have ws: "map snd (filter (\<lambda>kv. fst kv = k) kvs) = ws"
    by (simp add: kvs_def ws_def rs_def group_values)
  have "filter (\<lambda>kv. fst kv = k) kvs \<noteq> []" using k by (auto simp: filter_empty_conv)
  then have ne: "ws \<noteq> []" using ws by auto
  have pos: "\<forall>w \<in> set ws. 0 < sint w" using assms(2) by (auto simp: ws_def rs_def)
  have "sum_list (map sint ws) = sum_list (map (\<lambda>r. sint (int_cells r cv)) rs)"
    by (simp add: ws_def comp_def)
  also have "\<dots> \<le> sum_list (map (\<lambda>r. sint (int_cells r cv)) (rows d))"
    unfolding rs_def using assms(2) by (intro sum_list_filter_le) (auto intro: less_imp_le)
  finally have lt: "sum_list (map sint ws) < 2 ^ 63" using assms(3) by simp
  have "sint (sum_list ws) = sum_list (map sint ws)"
    using pos lt by (intro sint_sum_list) (auto intro: less_imp_le)
  moreover have "0 < sum_list (map sint ws)" using ne pos by (intro sum_list_pos) auto
  ultimately show ?thesis by (simp add: row ws)
qed

section \<open>Radius and colour\<close>

lemma float_of_int_pos:
  assumes "0 < i"
  shows "float_of_int i \<noteq> Finite 0" "float_of_int i \<noteq> NaN"
proof -
  have "nearest 1 \<le> nearest (of_int i)" using assms by (intro nearest_mono) simp
  moreover have "nearest 1 = 1" using nearest_exact [of 1 1 0] by simp
  ultimately have "1 \<le> nearest (of_int i)" by simp
  then show "float_of_int i \<noteq> Finite 0" "float_of_int i \<noteq> NaN"
    by (auto simp: float_of_int_def round_double_def Let_def)
qed

lemma str_colors:
  "str ''#8B0000'' \<noteq> str ''#DC143C''" "str ''#8B0000'' \<noteq> str ''#FF6347''"
  "str ''#8B0000'' \<noteq> str ''#FFA07A''" "str ''#DC143C'' \<noteq> str ''#FF6347''"
  "str ''#DC143C'' \<noteq> str ''#FFA07A''" "str ''#FF6347'' \<noteq> str ''#FFA07A''"
  by (simp_all add: str_def)

lemma tier_of_color_simps:
  "tier_of_color (str ''#8B0000'') = Some Very_high"
  "tier_of_color (str ''#DC143C'') = Some High"
  "tier_of_color (str ''#FF6347'') = Some Medium"
  "tier_of_color (str ''#FFA07A'') = Some Low"
  using str_colors by (simp_all add: tier_of_color_def)

lemma color_of_mono:
  assumes "vb \<le> va"
  shows "\<exists>ta tb. tier_of_color (color_of va mx) = Some ta \<and>
                 tier_of_color (color_of vb mx) = Some tb \<and> tier_rank tb \<le> tier_rank ta"
proof -
  note mono = float_gt_float_of_int_mono [OF assms]
  show ?thesis
    using mono [of "float_mul (float_of_int mx) (float_lit (7 / 10))"]
      mono [of "float_mul (float_of_int mx) (float_lit (4 / 10))"]
      mono [of "float_mul (float_of_int mx) (float_lit (2 / 10))"]
    by (auto simp: color_of_def tier_of_color_simps)
qed

lemma round_double_values:
  "round_double (7 / 10) = Finite (3152519739159347 / 4503599627370496)"
  "round_double (2 / 5) = Finite (3602879701896397 / 9007199254740992)"
  "round_double (1 / 5) = Finite (3602879701896397 / 18014398509481984)"
  "round_double (78812993478983675 / 1125899906842624) = Finite 70"
  "round_double (90071992547409925 / 2251799813685248) = Finite 40"
  "round_double (90071992547409925 / 4503599627370496) = Finite 20"
  "round_double (141863388262170615 / 2251799813685248) = Finite (8866461766385663 / 140737488355328)"
  "round_double (6755399441055744375 / 562949953421312) = Finite 12000"
  "round_double (3 / 7) = Finite (7720456504063707 / 18014398509481984)"
  "round_double (14475855945119450625 / 1125899906842624) = Finite (7068289035702857 / 549755813888)"
  "round_double (22067638174115429 / 4503599627370496) = Finite (5516909543528857 / 1125899906842624)"
  "round_double (25220157913274779 / 9007199254740992) = Finite (6305039478318695 / 2251799813685248)"
  using
    round_double_cert [of "- 53" "7 / 10" 6305039478318694]
    round_double_cert [of "- 54" "2 / 5" 7205759403792794]
    round_double_cert [of "- 55" "1 / 5" 7205759403792794]
    round_double_cert [of "- 46" "78812993478983675 / 1125899906842624" 4925812092436480]
    round_double_cert [of "- 47" "90071992547409925 / 2251799813685248" 5629499534213120]
    round_double_cert [of "- 48" "90071992547409925 / 4503599627370496" 5629499534213120]
    round_double_cert [of "- 47" "141863388262170615 / 2251799813685248" 8866461766385663]
    round_double_cert [of "- 39" "6755399441055744375 / 562949953421312" 6597069766656000]
    round_double_cert [of "- 54" "3 / 7" 7720456504063707]
    round_double_cert [of "- 39" "14475855945119450625 / 1125899906842624" 7068289035702857]
    round_double_cert [of "- 50" "22067638174115429 / 4503599627370496" 5516909543528857]
    round_double_cert [of "- 51" "25220157913274779 / 9007199254740992" 6305039478318695]
  by simp_all


lemma float_of_int_numeral:
  "float_of_int 100 = Finite 100" "float_of_int 90 = Finite 90" "float_of_int 63 = Finite 63"
  "float_of_int 40 = Finite 40" "float_of_int 30000 = Finite 30000"
  "float_of_int 5000 = Finite 5000" "float_of_int 0 = Finite 0"
  "float_of_int 7 = Finite 7" "float_of_int 3 = Finite 3"
  by (simp_all add: float_of_int_exact)

lemma round_double_numeral:
  "round_double 1 = Finite 1" "round_double 30000 = Finite 30000"
  "round_double 35000 = Finite 35000" "round_double 17000 = Finite 17000"
  using round_double_exact [of 1 1 0] round_double_exact [of 30000 30000 0]
    round_double_exact [of 35000 35000 0] round_double_exact [of 17000 17000 0]
  by simp_all

lemma color_of_scenario:
  "color_of 100 100 = str ''#8B0000''" "color_of 40 100 = str ''#FF6347''"
  by (simp_all add: color_of_def float_lit_def float_of_int_numeral round_double_values)

lemma color_of_boundary:
  "color_of 90 90 = str ''#8B0000''" "color_of 63 90 = str ''#8B0000''"
  by (simp_all add: color_of_def float_lit_def float_of_int_numeral round_double_values)

lemma radius_of_scenario:
  "radius_of 100 100 = Finite 35000" "radius_of 40 100 = Finite 17000"
  by (simp_all add: radius_of_def float_of_int_numeral round_double_numeral round_double_values)


section \<open>The example inputs, evaluated\<close>

lemma municipio_upper_ascii:
  "municipio_upper p (str ''RECIFE'') = str ''RECIFE''"
  "municipio_upper p (str ''OLINDA'') = str ''OLINDA''"
  "municipio_upper p (str ''ATLANTIS'') = str ''ATLANTIS''"
  "municipio_upper p (str ''olinda'') = str ''OLINDA''"
  "municipio_upper p (str ''atlantis '') = str ''ATLANTIS''"
  "municipio_upper p (str ''atlantis'') = str ''ATLANTIS''"
  "municipio_upper p (str '' Recife '') = str ''RECIFE''"
  "municipio_upper p (str '' Eldorado '') = str ''ELDORADO''"
  by (simp_all add: municipio_upper_def upper_def ascii_upper_def strip_def isspace_def str_def)

lemma municipio_upper_accented:
  "municipio_upper example_platform (str ''itamb'' @ [233, 160]) = str ''ITAMB'' @ [201]"
  by (simp add: municipio_upper_def upper_def example_platform_def latin_upper_def ascii_upper_def
      strip_def isspace_def str_def)

lemma tooltip_scenario:
  "tooltip (folium_Circle c (str ''RECIFE'') 100 mx) = str ''RECIFE: 100''"
  "tooltip (folium_Circle c (str ''OLINDA'') 40 mx) = str ''OLINDA: 40''"
  by (simp_all add: folium_Circle_def format_comma_def str_def)

lemma groupby_sum_empty_frame:
  "groupby_sum empty_frame (str ''MUNICIPIO'') (str ''TOTAL'') = Inr []"
  by (simp add: groupby_sum_def empty_frame_def)

lemma agg_empty_frame:
  "df_mapa_agg p (df_mapa empty_frame None None) (str ''MUNICIPIO'') (str ''TOTAL'') 20 = Inr []"
  by (simp add: df_mapa_agg_def df_mapa_None groupby_sum_empty_frame sort_values_desc_no_ties head_def)

lemma groupby_sum_scenario:
  "groupby_sum scenario_frame (str ''municipio'') (str ''total'') =
     Inr [(str ''ATLANTIS'', 10), (str ''OLINDA'', 40), (str ''RECIFE'', 100)]"
  by (simp add: groupby_sum_def scenario_frame_def record_of_def entry_def str_def)

lemma agg_scenario:
  "df_mapa_agg p (df_mapa scenario_frame None None) (str ''municipio'') (str ''total'') 3 =
     Inr [(str ''RECIFE'', 100), (str ''OLINDA'', 40), (str ''ATLANTIS'', 10)]"
  by (simp add: df_mapa_agg_def df_mapa_None groupby_sum_scenario sort_values_desc_no_ties head_def)

lemma Max_scenario:
  "Max (snd ` set [(str ''RECIFE'', 100::int), (str ''OLINDA'', 40), (str ''ATLANTIS'', 10)]) = 100"
  by simp

lemma scenario_three_groups:
  assumes "C (str ''RECIFE'') = Some cr" "C (str ''OLINDA'') = Some co" "C (str ''ATLANTIS'') = None"
  shows "criar_mapa_calor p C scenario_frame (str ''municipio'') (str ''total'') None None 3 =
           Inr \<lparr>map_location = default_center, zoom_start = 7, tiles = str ''OpenStreetMap'',
                circles = [folium_Circle cr (str ''RECIFE'') 100 100,
                           folium_Circle co (str ''OLINDA'') 40 100],
                html = [legend_html]\<rparr>"
  using criar_nonempty [OF agg_scenario, of p C] assms
  by (simp add: Max_scenario loop_body_def municipio_upper_ascii add_to_def add_child_def
      folium_Map_def)

lemma scenario_coords_simps:
  "scenario_coords (str ''RECIFE'') = Some recife"
  "scenario_coords (str ''OLINDA'') = Some olinda"
  "scenario_coords (str ''ATLANTIS'') = None"
  "scenario_coords (str ''ELDORADO'') = None"
  by (simp_all add: scenario_coords_def str_def)

lemma criar_scenario:
  "criar_mapa_calor p scenario_coords scenario_frame (str ''municipio'') (str ''total'') None None 3 =
     Inr scenario_map"
  using scenario_three_groups [of scenario_coords, OF scenario_coords_simps(1-3)]
  by (simp add: scenario_map_def)

lemma matched_scenario:
  "matched p scenario_coords [(str ''RECIFE'', 100), (str ''OLINDA'', 40), (str ''ATLANTIS'', 10)] =
     [(str ''RECIFE'', 100), (str ''OLINDA'', 40)]"
  by (simp add: matched_def municipio_upper_ascii scenario_coords_simps)

lemma groupby_sum_lookup_miss:
  "groupby_sum lookup_miss_frame (str ''MUNICIPIO'') (str ''TOTAL'') =
     Inr [(str ''atlantis '', 100), (str ''olinda'', 40)]"
  by (simp add: groupby_sum_def lookup_miss_frame_def record_of_def entry_def str_def)

lemma agg_lookup_miss:
  "df_mapa_agg p (df_mapa lookup_miss_frame None None) (str ''MUNICIPIO'') (str ''TOTAL'') 20 =
     Inr [(str ''atlantis '', 100), (str ''olinda'', 40)]"
  by (simp add: df_mapa_agg_def df_mapa_None groupby_sum_lookup_miss sort_values_desc_no_ties head_def)

lemma groupby_sum_zero:
  "groupby_sum zero_frame (str ''MUNICIPIO'') (str ''TOTAL'') = Inr [(str ''RECIFE'', 0)]"
  by (simp add: groupby_sum_def zero_frame_def record_of_def entry_def)

lemma groupby_sum_boundary:
  "groupby_sum boundary_frame (str ''MUNICIPIO'') (str ''TOTAL'') =
     Inr [(str ''OLINDA'', 63), (str ''RECIFE'', 90)]"
  by (simp add: groupby_sum_def boundary_frame_def record_of_def entry_def str_def)

lemma agg_boundary:
  "df_mapa_agg p (df_mapa boundary_frame None None) (str ''MUNICIPIO'') (str ''TOTAL'') 20 =
     Inr [(str ''RECIFE'', 90), (str ''OLINDA'', 63)]"
  by (simp add: df_mapa_agg_def df_mapa_None groupby_sum_boundary sort_values_desc_no_ties head_def)




lemma groupby_sum_accented:
  "groupby_sum accented_frame (str ''MUNICIPIO'') (str ''TOTAL'') =
     Inr [(str '' Recife '', 100), (str ''ATLANTIS'', 10), (str ''itamb'' @ [233, 160], 30)]"
  by (simp add: groupby_sum_def accented_frame_def record_of_def entry_def str_def)

lemma agg_accented:
  "df_mapa_agg p (df_mapa accented_frame None None) (str ''MUNICIPIO'') (str ''TOTAL'') 2 =
     Inr [(str '' Recife '', 100), (str ''itamb'' @ [233, 160], 30)]"
  by (simp add: df_mapa_agg_def df_mapa_None groupby_sum_accented sort_values_desc_no_ties head_def)

lemma accented_coords_simps:
  "accented_coords (str ''RECIFE'') = Some recife"
  "accented_coords (str ''ITAMB'' @ [201]) = Some itambe"
  "accented_coords (str ''ATLANTIS'') = None"
  by (simp_all add: accented_coords_def str_def)

lemma criar_accented:
  "criar_mapa_calor example_platform accented_coords accented_frame (str ''MUNICIPIO'')
       (str ''TOTAL'') None None 2 =
     Inr \<lparr>map_location = default_center, zoom_start = 7, tiles = str ''OpenStreetMap'',
          circles = [folium_Circle recife (str '' Recife '') 100 100,
                     folium_Circle itambe (str ''itamb'' @ [233, 160]) 30 100],
          html = [legend_html]\<rparr>"
proof -
  have mx: "Max (snd ` set [(str '' Recife '', 100::int), (str ''itamb'' @ [233, 160], 30)]) = 100"
    by simp
  show ?thesis
    using criar_nonempty [OF agg_accented, of example_platform accented_coords]
    by (simp add: mx loop_body_def municipio_upper_ascii municipio_upper_accented add_to_def
        add_child_def folium_Map_def accented_coords_simps)
qed

lemma groupby_sum_unresolved:
  "groupby_sum unresolved_frame (str ''MUNICIPIO'') (str ''TOTAL'') =
     Inr [(str '' Eldorado '', 3), (str ''atlantis'', 5)]"
  by (simp add: groupby_sum_def unresolved_frame_def record_of_def entry_def str_def)

lemma agg_unresolved:
  "df_mapa_agg p (df_mapa unresolved_frame None None) (str ''MUNICIPIO'') (str ''TOTAL'') 20 =
     Inr [(str ''atlantis'', 5), (str '' Eldorado '', 3)]"
  by (simp add: df_mapa_agg_def df_mapa_None groupby_sum_unresolved sort_values_desc_no_ties head_def)

section \<open>Claims\<close>

text \<open>
  C1 (as amended). When the aggregated group set after filtering is empty, the returned
  map is centred on the default coordinate (lat -8.0476, lon -35.8770), has no markers
  and has no legend: the function returns before the legend is added.
\<close>
theorem empty_groups_bare_map:
  assumes "df_mapa_agg p (df_mapa df ano mes) col_municipio col_vitimas top_n = Inr []"
  shows "criar_mapa_calor p C df col_municipio col_vitimas ano mes top_n =
           Inr \<lparr>map_location = default_center, zoom_start = 7, tiles = str ''OpenStreetMap'',
                circles = [], html = []\<rparr>"
  using criar_empty [OF assms, of C] by (simp add: folium_Map_def)

text \<open>
  C1, at the frame without records.
\<close>
theorem empty_groups_bare_map_witness:
  "df_mapa_agg example_platform (df_mapa empty_frame None None) (str ''MUNICIPIO'') (str ''TOTAL'') 20 =
     Inr [] \<and>
   criar_mapa_calor example_platform scenario_coords empty_frame (str ''MUNICIPIO'') (str ''TOTAL'')
       None None 20 =
     Inr \<lparr>map_location = default_center, zoom_start = 7, tiles = str ''OpenStreetMap'',
          circles = [], html = []\<rparr>"
  using empty_groups_bare_map [OF agg_empty_frame, of example_platform scenario_coords]
    agg_empty_frame [of example_platform]
  by simp

text \<open>
  C1 as stated asks for the legend in the map of an empty group set; the map returned
  for the frame without records has no element at all.
\<close>
theorem empty_groups_legend_counterexample:
  "criar_mapa_calor example_platform Map.empty empty_frame (str ''MUNICIPIO'') (str ''TOTAL'')
       None None 20 =
     Inr \<lparr>map_location = default_center, zoom_start = 7, tiles = str ''OpenStreetMap'',
          circles = [], html = []\<rparr>"
  by (simp add: criar_mapa_calor_def agg_empty_frame folium_Map_def default_center_def)

text \<open>
  C2, at the failing input: RECIFE with 90 and OLINDA with 63. The ratio 63 / 90 is
  exactly 0.70, the product \<open>90 * 0.7\<close> is rounded to 62.99999999999999, and
  OLINDA gets the colour of the tier Muito Alta (very high), where the claim and the
  legend of the source (\<open>>70%\<close>) put it in Alta (high).
\<close>
theorem ratio_seven_tenths_very_high:
  "criar_mapa_calor p scenario_coords boundary_frame (str ''MUNICIPIO'') (str ''TOTAL'') None None 20 =
     Inr \<lparr>map_location = default_center, zoom_start = 7, tiles = str ''OpenStreetMap'',
          circles = [folium_Circle recife (str ''RECIFE'') 90 90,
                     folium_Circle olinda (str ''OLINDA'') 63 90],
          html = [legend_html]\<rparr> \<and>
   (63::rat) / 90 = 7 / 10 \<and>
   float_div (float_of_int 63) (float_of_int 90) = float_lit (7 / 10) \<and>
   float_mul (float_of_int 90) (float_lit (7 / 10)) = Finite (8866461766385663 / 140737488355328) \<and>
   color (folium_Circle olinda (str ''OLINDA'') 63 90) = str ''#8B0000'' \<and>
   tier_of_color (str ''#8B0000'') = Some Very_high"
proof -
  have mx: "Max (snd ` set [(str ''RECIFE'', 90::int), (str ''OLINDA'', 63)]) = 90" by simp
  have 1: "criar_mapa_calor p scenario_coords boundary_frame (str ''MUNICIPIO'') (str ''TOTAL'')
       None None 20 =
     Inr \<lparr>map_location = default_center, zoom_start = 7, tiles = str ''OpenStreetMap'',
          circles = [folium_Circle recife (str ''RECIFE'') 90 90,
                     folium_Circle olinda (str ''OLINDA'') 63 90],
          html = [legend_html]\<rparr>"
    using criar_nonempty [OF agg_boundary, of p scenario_coords]
    by (simp add: mx loop_body_def municipio_upper_ascii add_to_def add_child_def
        folium_Map_def scenario_coords_simps)
  have 2: "float_mul (float_of_int 90) (float_lit (7 / 10)) =
             Finite (8866461766385663 / 140737488355328)"
    by (simp add: float_lit_def float_of_int_numeral round_double_values)
  have 3: "color (folium_Circle olinda (str ''OLINDA'') 63 90) = str ''#8B0000''"
    by (simp add: folium_Circle_def color_of_boundary)
  have 4: "tier_of_color (str ''#8B0000'') = Some Very_high" by (rule tier_of_color_simps)
  have 5: "(63::rat) / 90 = 7 / 10" by simp
  have 6: "float_div (float_of_int 63) (float_of_int 90) = float_lit (7 / 10)"
    by (simp add: float_lit_def float_of_int_numeral)
  from 1 2 3 4 5 6 show ?thesis by blast
qed

text \<open>
  C3 (as amended). When every record of the frame holds a strictly positive value, the
  values of the frame add up to less than \<open>2 ^ 63\<close> (no int64 sum wraps around)
  and the aggregated group set is not empty, every kept group has a strictly positive
  sum, the maximum is strictly positive, and the divisor of the radius is not zero.
\<close>
theorem positive_records_positive_max:
  assumes "df_mapa_agg p (df_mapa df ano mes) col_municipio col_vitimas top_n = Inr agg"
    and "agg \<noteq> []"
    and "\<forall>r \<in> set (rows df). 0 < sint (int_cells r col_vitimas)"
    and "sum_list (map (\<lambda>r. sint (int_cells r col_vitimas)) (rows df)) < 2 ^ 63"
  shows "0 < Max (snd ` set agg) \<and> (\<forall>row \<in> set agg. 0 < snd row) \<and>
         float_of_int (Max (snd ` set agg)) \<noteq> Finite 0"
proof -
  let ?d = "df_mapa df ano mes"
  from assms(1) obtain g where
    g: "groupby_sum ?d col_municipio col_vitimas = Inr g"
      "agg = head top_n (sort_values_desc p g)"
    by (rule df_mapa_agg_Inr)
  have sub: "set agg \<subseteq> set g" using assms(1) g(1) by (rule df_mapa_agg_subset)
  obtain P where P: "rows ?d = filter P (rows df)" using rows_df_mapa by blast
  have h: "\<forall>r \<in> set (rows ?d). 0 < sint (int_cells r col_vitimas)"
    using assms(3) by (simp add: P)
  have "sum_list (map (\<lambda>r. sint (int_cells r col_vitimas)) (rows ?d)) \<le>
        sum_list (map (\<lambda>r. sint (int_cells r col_vitimas)) (rows df))"
    unfolding P using assms(3) by (intro sum_list_filter_le) (auto intro: less_imp_le)
  then have lt: "sum_list (map (\<lambda>r. sint (int_cells r col_vitimas)) (rows ?d)) < 2 ^ 63"
    using assms(4) by simp
  have all: "\<forall>row \<in> set agg. 0 < snd row"
    using groupby_sum_pos [OF g(1) h lt] sub by blast
  have "Max (snd ` set agg) \<in> snd ` set agg" using assms(2) by (intro Max_in) simp_all
  with all have mx: "0 < Max (snd ` set agg)" by auto
  from mx all float_of_int_pos(1) [OF mx] show ?thesis by blast
qed

text \<open>
  C3, at the scenario frame.
\<close>
theorem positive_records_positive_max_witness:
  "df_mapa_agg example_platform (df_mapa scenario_frame None None) (str ''municipio'') (str ''total'') 3 =
     Inr [(str ''RECIFE'', 100), (str ''OLINDA'', 40), (str ''ATLANTIS'', 10)] \<and>
   [(str ''RECIFE'', 100::int), (str ''OLINDA'', 40), (str ''ATLANTIS'', 10)] \<noteq> [] \<and>
   map (\<lambda>r. sint (int_cells r (str ''total''))) (rows scenario_frame) = [100, 40, 10] \<and>
   sum_list [100, 40, 10 :: int] < 2 ^ 63 \<and>
   0 < Max (snd ` set [(str ''RECIFE'', 100::int), (str ''OLINDA'', 40), (str ''ATLANTIS'', 10)]) \<and>
   float_of_int
     (Max (snd ` set [(str ''RECIFE'', 100::int), (str ''OLINDA'', 40), (str ''ATLANTIS'', 10)]))
     \<noteq> Finite 0"
proof -
  have ne: "[(str ''RECIFE'', 100::int), (str ''OLINDA'', 40), (str ''ATLANTIS'', 10)] \<noteq> []"
    by simp
  have vs: "map (\<lambda>r. sint (int_cells r (str ''total''))) (rows scenario_frame) = [100, 40, 10]"
    by (simp add: scenario_frame_def record_of_def)
  have s: "sum_list [100, 40, 10 :: int] < 2 ^ 63" by simp
  have "\<forall>v \<in> set (map (\<lambda>r. sint (int_cells r (str ''total''))) (rows scenario_frame)). 0 < v"
    by (simp only: vs) simp
  then have h: "\<forall>r \<in> set (rows scenario_frame). 0 < sint (int_cells r (str ''total''))"
    by simp
  have lt: "sum_list (map (\<lambda>r. sint (int_cells r (str ''total''))) (rows scenario_frame)) < 2 ^ 63"
    by (simp only: vs s)
  from positive_records_positive_max [OF agg_scenario [of example_platform] ne h lt]
    agg_scenario [of example_platform] ne vs s
  show ?thesis by blast
qed

text \<open>
  C3 as stated. A frame whose only record counts 0 gives a group set that is not
  empty, with the group sum and the maximum 0; the quotient of the radius is then
  0 / 0.
\<close>
theorem zero_sum_group_counterexample:
  "df_mapa_agg example_platform (df_mapa zero_frame None None) (str ''MUNICIPIO'') (str ''TOTAL'') 20 =
     Inr [(str ''RECIFE'', 0)] \<and>
   Max (snd ` set [(str ''RECIFE'', 0::int)]) = 0 \<and>
   float_div (float_of_int 0) (float_of_int 0) = NaN"
  by (simp add: df_mapa_agg_def df_mapa_None groupby_sum_zero sort_values_desc_no_ties head_def
      float_of_int_numeral)

text \<open>
  C4. The scenario: RECIFE 100, OLINDA 40, ATLANTIS 10, \<open>top_n = 3\<close>, a table
  that has RECIFE and OLINDA and not ATLANTIS. The map has exactly two markers; RECIFE
  is in the tier very high and OLINDA in the tier medium.
\<close>
theorem scenario_markers_and_tiers:
  assumes "C (str ''RECIFE'') = Some cr" "C (str ''OLINDA'') = Some co" "C (str ''ATLANTIS'') = None"
  shows "\<exists>m. criar_mapa_calor p C scenario_frame (str ''municipio'') (str ''total'') None None 3 =
              Inr m \<and>
           length (circles m) = 2 \<and>
           map tooltip (circles m) = [str ''RECIFE: 100'', str ''OLINDA: 40''] \<and>
           map (\<lambda>c. tier_of_color (color c)) (circles m) = [Some Very_high, Some Medium]"
proof -
  have "color (folium_Circle cr (str ''RECIFE'') 100 100) = str ''#8B0000''"
    "color (folium_Circle co (str ''OLINDA'') 40 100) = str ''#FF6347''"
    by (simp_all add: folium_Circle_def color_of_scenario)
  then show ?thesis
    using scenario_three_groups [OF assms, of p]
    by (simp add: tooltip_scenario tier_of_color_simps)
qed

text \<open>
  C4, at a table with coordinates for RECIFE and OLINDA.
\<close>
theorem scenario_markers_and_tiers_witness:
  "scenario_coords (str ''RECIFE'') = Some recife \<and>
   scenario_coords (str ''OLINDA'') = Some olinda \<and>
   scenario_coords (str ''ATLANTIS'') = None \<and>
   (\<exists>m. criar_mapa_calor example_platform scenario_coords scenario_frame (str ''municipio'')
            (str ''total'') None None 3 = Inr m \<and>
        length (circles m) = 2 \<and>
        map tooltip (circles m) = [str ''RECIFE: 100'', str ''OLINDA: 40''] \<and>
        map (\<lambda>c. tier_of_color (color c)) (circles m) = [Some Very_high, Some Medium])"
  using scenario_markers_and_tiers [OF scenario_coords_simps(1-3), of example_platform]
    scenario_coords_simps(1-3)
  by blast

text \<open>
  C5. For a positive \<open>top_n\<close> the number of markers is at most \<open>top_n\<close>
  and at most the number of distinct group keys whose normalized name is in the
  coordinate table.
\<close>
theorem top_n_bound:
  assumes "criar_mapa_calor p C df col_municipio col_vitimas ano mes top_n = Inr m"
    and "0 < top_n"
    and "groupby_sum (df_mapa df ano mes) col_municipio col_vitimas = Inr g"
  shows "length (circles m) \<le> nat top_n \<and>
         length (circles m) \<le> card {k \<in> fst ` set g. C (municipio_upper p k) \<noteq> None}"
proof -
  from assms(1) obtain agg where
    agg: "df_mapa_agg p (df_mapa df ano mes) col_municipio col_vitimas top_n = Inr agg"
    by (rule criar_Inr_agg)
  have len: "length (circles m) = length (matched p C agg)"
    using criar_circles_matched [OF agg assms(1)] by simp
  have "length (matched p C agg) \<le> length agg" by (rule matched_length)
  also have "\<dots> \<le> nat top_n" using agg assms(2) by (intro df_mapa_agg_length) simp_all
  finally have a: "length (circles m) \<le> nat top_n" using len by simp
  have d: "distinct (map fst (matched p C agg))"
    by (intro matched_distinct df_mapa_agg_distinct [OF agg])
  have sub: "set (map fst (matched p C agg)) \<subseteq> {k \<in> fst ` set g. C (municipio_upper p k) \<noteq> None}"
    using df_mapa_agg_subset [OF agg assms(3)] by (auto simp: matched_def)
  have "length (matched p C agg) = card (set (map fst (matched p C agg)))"
    using distinct_card [OF d] by simp
  also have "\<dots> \<le> card {k \<in> fst ` set g. C (municipio_upper p k) \<noteq> None}"
    by (intro card_mono sub) simp
  finally have b: "length (circles m) \<le> card {k \<in> fst ` set g. C (municipio_upper p k) \<noteq> None}"
    using len by simp
  from a b show ?thesis ..
qed

text \<open>
  C5, at a frame of three groups with \<open>top_n = 2\<close>: a name between spaces and a
  name in lower case with an accented letter and a no-break space, both found in the
  table once normalized.
\<close>
theorem top_n_bound_witness:
  "criar_mapa_calor example_platform accented_coords accented_frame (str ''MUNICIPIO'')
       (str ''TOTAL'') None None 2 =
     Inr \<lparr>map_location = default_center, zoom_start = 7, tiles = str ''OpenStreetMap'',
          circles = [folium_Circle recife (str '' Recife '') 100 100,
                     folium_Circle itambe (str ''itamb'' @ [233, 160]) 30 100],
          html = [legend_html]\<rparr> \<and>
   (0::int) < 2 \<and>
   groupby_sum (df_mapa accented_frame None None) (str ''MUNICIPIO'') (str ''TOTAL'') =
     Inr [(str '' Recife '', 100), (str ''ATLANTIS'', 10), (str ''itamb'' @ [233, 160], 30)] \<and>
   municipio_upper example_platform (str '' Recife '') = str ''RECIFE'' \<and>
   municipio_upper example_platform (str ''itamb'' @ [233, 160]) = str ''ITAMB'' @ [201] \<and>
   length [folium_Circle recife (str '' Recife '') 100 100,
           folium_Circle itambe (str ''itamb'' @ [233, 160]) 30 100] \<le> nat 2 \<and>
   length [folium_Circle recife (str '' Recife '') 100 100,
           folium_Circle itambe (str ''itamb'' @ [233, 160]) 30 100] \<le>
     card {k \<in> fst ` set [(str '' Recife '', 100::int), (str ''ATLANTIS'', 10),
                           (str ''itamb'' @ [233, 160], 30)].
             accented_coords (municipio_upper example_platform k) \<noteq> None}"
proof -
  have g: "groupby_sum (df_mapa accented_frame None None) (str ''MUNICIPIO'') (str ''TOTAL'') =
     Inr [(str '' Recife '', 100), (str ''ATLANTIS'', 10), (str ''itamb'' @ [233, 160], 30)]"
    by (simp only: df_mapa_None groupby_sum_accented)
  have q: "(0::int) < 2" by simp
  note t = top_n_bound [OF criar_accented q g]
  from t have "length [folium_Circle recife (str '' Recife '') 100 100,
           folium_Circle itambe (str ''itamb'' @ [233, 160]) 30 100] \<le> nat 2 \<and>
   length [folium_Circle recife (str '' Recife '') 100 100,
           folium_Circle itambe (str ''itamb'' @ [233, 160]) 30 100] \<le>
     card {k \<in> fst ` set [(str '' Recife '', 100::int), (str ''ATLANTIS'', 10),
                           (str ''itamb'' @ [233, 160], 30)].
             accented_coords (municipio_upper example_platform k) \<noteq> None}"
    by (simp only: folium_map.simps)
  with criar_accented q g municipio_upper_ascii(7) [of example_platform] municipio_upper_accented
  show ?thesis by blast
qed

text \<open>
  C6. A kept group whose normalized name is not in the coordinate table adds no marker,
  and the maximum that the radius and the colour of every marker use is taken over all
  kept groups, this one included: its sum is at most the maximum, and is the maximum
  when no kept group has a larger sum.
\<close>
theorem lookup_miss_isolation:
  assumes "df_mapa_agg p (df_mapa df ano mes) col_municipio col_vitimas top_n = Inr agg"
    and "row \<in> set agg"
    and "C (municipio_upper p (fst row)) = None"
  shows "\<exists>m. criar_mapa_calor p C df col_municipio col_vitimas ano mes top_n = Inr m \<and>
           circles m = concat (map (group_circles p C (Max (snd ` set agg))) agg) \<and>
           group_circles p C (Max (snd ` set agg)) row = [] \<and>
           row \<notin> set (matched p C agg) \<and>
           snd row \<le> Max (snd ` set agg) \<and>
           ((\<forall>r \<in> set agg. snd r \<le> snd row) \<longrightarrow> Max (snd ` set agg) = snd row)"
proof -
  obtain m where m: "criar_mapa_calor p C df col_municipio col_vitimas ano mes top_n = Inr m"
    using criar_total [OF assms(1)] by blast
  have 1: "circles m = concat (map (group_circles p C (Max (snd ` set agg))) agg)"
    using assms(1) m by (rule criar_circles)
  have 2: "group_circles p C (Max (snd ` set agg)) row = []"
    using assms(3) by (simp add: group_circles_def)
  have 3: "row \<notin> set (matched p C agg)" using assms(3) by (simp add: matched_def)
  have 4: "snd row \<le> Max (snd ` set agg)" using assms(2) by (intro Max_ge) simp_all
  have 5: "(\<forall>r \<in> set agg. snd r \<le> snd row) \<longrightarrow> Max (snd ` set agg) = snd row"
  proof
    assume "\<forall>r \<in> set agg. snd r \<le> snd row"
    then show "Max (snd ` set agg) = snd row"
      using assms(2) by (intro Max_eqI) auto
  qed
  from m 1 2 3 4 5 show ?thesis by blast
qed

text \<open>
  C6, at a frame where the group without coordinates has the largest sum: the marker
  of olinda is computed with the maximum 100 of atlantis.
\<close>
theorem lookup_miss_isolation_witness:
  "df_mapa_agg example_platform (df_mapa lookup_miss_frame None None) (str ''MUNICIPIO'')
       (str ''TOTAL'') 20 =
     Inr [(str ''atlantis '', 100), (str ''olinda'', 40)] \<and>
   (str ''atlantis '', 100) \<in> set [(str ''atlantis '', 100::int), (str ''olinda'', 40)] \<and>
   municipio_upper example_platform (fst (str ''atlantis '', 100::int)) = str ''ATLANTIS'' \<and>
   scenario_coords (municipio_upper example_platform (fst (str ''atlantis '', 100::int))) = None \<and>
   (\<exists>m. criar_mapa_calor example_platform scenario_coords lookup_miss_frame (str ''MUNICIPIO'')
            (str ''TOTAL'') None None 20 = Inr m \<and>
        circles m = [folium_Circle olinda (str ''olinda'') 40 100]) \<and>
   Max (snd ` set [(str ''atlantis '', 100::int), (str ''olinda'', 40)]) = 100"
proof -
  have r: "(str ''atlantis '', 100) \<in> set [(str ''atlantis '', 100::int), (str ''olinda'', 40)]"
    by simp
  have n: "municipio_upper example_platform (fst (str ''atlantis '', 100::int)) = str ''ATLANTIS''"
    by (simp add: municipio_upper_ascii)
  have c: "scenario_coords (municipio_upper example_platform (fst (str ''atlantis '', 100::int))) = None"
    by (simp add: municipio_upper_ascii scenario_coords_simps)
  have mx: "Max (snd ` set [(str ''atlantis '', 100::int), (str ''olinda'', 40)]) = 100" by simp
  have gc: "concat (map (group_circles example_platform scenario_coords 100)
              [(str ''atlantis '', 100), (str ''olinda'', 40)]) =
          [folium_Circle olinda (str ''olinda'') 40 100]"
    by (simp add: group_circles_def municipio_upper_ascii scenario_coords_simps)
  from lookup_miss_isolation
    [where p = example_platform and C = scenario_coords and row = "(str ''atlantis '', 100)",
      OF agg_lookup_miss r c]
  obtain m where
    "criar_mapa_calor example_platform scenario_coords lookup_miss_frame (str ''MUNICIPIO'')
       (str ''TOTAL'') None None 20 = Inr m"
    "circles m = concat (map (group_circles example_platform scenario_coords
        (Max (snd ` set [(str ''atlantis '', 100::int), (str ''olinda'', 40)])))
        [(str ''atlantis '', 100), (str ''olinda'', 40)])"
    by blast
  then have "\<exists>m. criar_mapa_calor example_platform scenario_coords lookup_miss_frame
            (str ''MUNICIPIO'') (str ''TOTAL'') None None 20 = Inr m \<and>
        circles m = [folium_Circle olinda (str ''olinda'') 40 100]"
    by (simp only: mx gc) blast
  with agg_lookup_miss [of example_platform] r n c mx show ?thesis by blast
qed




text \<open>
  C8. A year filter on a frame without the column ANO, and a month filter on a frame
  without the column MES, change nothing: the frame that is aggregated and the result
  are those of the call without the filter, and a call whose municipality and value
  columns exist returns a map.
\<close>
theorem filter_noop_on_missing_column:
  "(str ''ANO'' \<notin> set (columns df) \<longrightarrow>
      df_mapa df (Some a) mes = df_mapa df None mes \<and>
      criar_mapa_calor p C df col_municipio col_vitimas (Some a) mes top_n =
        criar_mapa_calor p C df col_municipio col_vitimas None mes top_n) \<and>
   (str ''MES'' \<notin> set (columns df) \<longrightarrow>
      df_mapa df ano (Some m) = df_mapa df ano None \<and>
      criar_mapa_calor p C df col_municipio col_vitimas ano (Some m) top_n =
        criar_mapa_calor p C df col_municipio col_vitimas ano None top_n) \<and>
   (col_municipio \<in> set (columns df) \<and> col_vitimas \<in> set (columns df) \<longrightarrow>
      (\<exists>r. criar_mapa_calor p C df col_municipio col_vitimas ano mes top_n = Inr r))"
proof (intro conjI impI)
  assume "str ''ANO'' \<notin> set (columns df)"
  then show y: "df_mapa df (Some a) mes = df_mapa df None mes"
    by (simp add: df_mapa_def)
  show "criar_mapa_calor p C df col_municipio col_vitimas (Some a) mes top_n =
        criar_mapa_calor p C df col_municipio col_vitimas None mes top_n"
    by (simp only: criar_mapa_calor_def y)
next
  assume "str ''MES'' \<notin> set (columns df)"
  then show y: "df_mapa df ano (Some m) = df_mapa df ano None"
    by (simp add: df_mapa_def Let_def columns_filter_eq split: option.splits)
  show "criar_mapa_calor p C df col_municipio col_vitimas ano (Some m) top_n =
        criar_mapa_calor p C df col_municipio col_vitimas ano None top_n"
    by (simp only: criar_mapa_calor_def y)
next
  assume "col_municipio \<in> set (columns df) \<and> col_vitimas \<in> set (columns df)"
  then obtain agg where
    "df_mapa_agg p (df_mapa df ano mes) col_municipio col_vitimas top_n = Inr agg"
    using df_mapa_agg_total [of col_municipio "df_mapa df ano mes" col_vitimas p top_n]
    by (auto simp: columns_df_mapa)
  then show "\<exists>r. criar_mapa_calor p C df col_municipio col_vitimas ano mes top_n = Inr r"
    by (rule criar_total)
qed

text \<open>
  C8, at the scenario frame, which has neither ANO nor MES.
\<close>
theorem filter_noop_on_missing_column_witness:
  "str ''ANO'' \<notin> set (columns scenario_frame) \<and>
   str ''MES'' \<notin> set (columns scenario_frame) \<and>
   str ''municipio'' \<in> set (columns scenario_frame) \<and>
   str ''total'' \<in> set (columns scenario_frame) \<and>
   df_mapa scenario_frame (Some 2020) (Some 5) = df_mapa scenario_frame None (Some 5) \<and>
   df_mapa scenario_frame (Some 2020) (Some 5) = df_mapa scenario_frame (Some 2020) None \<and>
   criar_mapa_calor example_platform scenario_coords scenario_frame (str ''municipio'')
       (str ''total'') (Some 2020) (Some 5) 3 =
     criar_mapa_calor example_platform scenario_coords scenario_frame (str ''municipio'')
       (str ''total'') None (Some 5) 3 \<and>
   criar_mapa_calor example_platform scenario_coords scenario_frame (str ''municipio'')
       (str ''total'') (Some 2020) (Some 5) 3 =
     criar_mapa_calor example_platform scenario_coords scenario_frame (str ''municipio'')
       (str ''total'') (Some 2020) None 3 \<and>
   (\<exists>r. criar_mapa_calor example_platform scenario_coords scenario_frame (str ''municipio'')
          (str ''total'') (Some 2020) (Some 5) 3 = Inr r)"
proof -
  have c: "columns scenario_frame = [str ''municipio'', str ''total'']"
    by (simp add: scenario_frame_def)
  have a: "str ''ANO'' \<notin> set (columns scenario_frame)"
    and b: "str ''MES'' \<notin> set (columns scenario_frame)"
    and k: "str ''municipio'' \<in> set (columns scenario_frame)"
    and v: "str ''total'' \<in> set (columns scenario_frame)"
    by (simp_all add: c str_def)
  show ?thesis
    using a b k v filter_noop_on_missing_column
      [of scenario_frame 2020 "Some 5" example_platform scenario_coords "str ''municipio''"
        "str ''total''" 3 "Some 2020" 5]
    by blast
qed

text \<open>
  C9. Of two matched groups of one call, the one with the larger sum never gets a lower
  tier, in the order low, medium, high, very high; the i-th marker is the marker of the
  i-th matched group.
\<close>
theorem tier_monotone:
  assumes "df_mapa_agg p (df_mapa df ano mes) col_municipio col_vitimas top_n = Inr agg"
    and "criar_mapa_calor p C df col_municipio col_vitimas ano mes top_n = Inr m"
    and "i < length (matched p C agg)" "j < length (matched p C agg)"
    and "snd (matched p C agg ! j) < snd (matched p C agg ! i)"
  shows "map color (circles m) =
           map (\<lambda>row. color_of (snd row) (Max (snd ` set agg))) (matched p C agg) \<and>
         (\<exists>ti tj. tier_of_color (color (circles m ! i)) = Some ti \<and>
                  tier_of_color (color (circles m ! j)) = Some tj \<and>
                  tier_rank tj \<le> tier_rank ti)"
proof -
  let ?mx = "Max (snd ` set agg)"
  have c: "map color (circles m) = map (\<lambda>row. color_of (snd row) ?mx) (matched p C agg)"
    using criar_circles_matched [OF assms(1,2)] by (simp add: folium_Circle_def comp_def)
  have len: "length (circles m) = length (matched p C agg)"
    using criar_circles_matched [OF assms(1,2)] by simp
  have "color (circles m ! i) = map color (circles m) ! i" using assms(3) len by simp
  then have ci: "color (circles m ! i) = color_of (snd (matched p C agg ! i)) ?mx"
    using assms(3) by (simp add: c)
  have "color (circles m ! j) = map color (circles m) ! j" using assms(4) len by simp
  then have cj: "color (circles m ! j) = color_of (snd (matched p C agg ! j)) ?mx"
    using assms(4) by (simp add: c)
  have "snd (matched p C agg ! j) \<le> snd (matched p C agg ! i)" using assms(5) by simp
  then show ?thesis using color_of_mono [of _ _ ?mx] c unfolding ci cj by blast
qed

text \<open>
  C9, at the scenario.
\<close>
theorem tier_monotone_witness:
  "df_mapa_agg example_platform (df_mapa scenario_frame None None) (str ''municipio'')
       (str ''total'') 3 =
     Inr [(str ''RECIFE'', 100), (str ''OLINDA'', 40), (str ''ATLANTIS'', 10)] \<and>
   criar_mapa_calor example_platform scenario_coords scenario_frame (str ''municipio'')
       (str ''total'') None None 3 =
     Inr scenario_map \<and>
   matched example_platform scenario_coords
       [(str ''RECIFE'', 100), (str ''OLINDA'', 40), (str ''ATLANTIS'', 10)] =
     [(str ''RECIFE'', 100), (str ''OLINDA'', 40)] \<and>
   map color (circles scenario_map) = [str ''#8B0000'', str ''#FF6347''] \<and>
   (\<exists>ti tj. tier_of_color (color (circles scenario_map ! 0)) = Some ti \<and>
            tier_of_color (color (circles scenario_map ! 1)) = Some tj \<and>
            tier_rank tj \<le> tier_rank ti)"
proof -
  let ?agg = "[(str ''RECIFE'', 100), (str ''OLINDA'', 40), (str ''ATLANTIS'', 10)]"
  note ms = matched_scenario [of example_platform]
  have i: "0 < length (matched example_platform scenario_coords ?agg)"
    and j: "1 < length (matched example_platform scenario_coords ?agg)"
    and lt: "snd (matched example_platform scenario_coords ?agg ! 1)
           < snd (matched example_platform scenario_coords ?agg ! 0)"
    by (simp_all add: ms)
  note t = tier_monotone [OF agg_scenario criar_scenario i j lt]
  from t have "map color (circles scenario_map) = [color_of 100 100, color_of 40 100]"
    by (simp only: ms Max_scenario list.map fst_conv snd_conv)
  then have c: "map color (circles scenario_map) = [str ''#8B0000'', str ''#FF6347'']"
    by (simp only: color_of_scenario)
  from t c agg_scenario [of example_platform] criar_scenario [of example_platform] ms
  show ?thesis by blast
qed

text \<open>
  C10. When the aggregated group set is not empty and no group's normalized name is in
  the coordinate table, the returned map has no markers and has the legend.
\<close>
theorem unresolved_groups_legend_only:
  assumes "df_mapa_agg p (df_mapa df ano mes) col_municipio col_vitimas top_n = Inr agg"
    and "agg \<noteq> []"
    and "\<forall>row \<in> set agg. C (municipio_upper p (fst row)) = None"
  shows "criar_mapa_calor p C df col_municipio col_vitimas ano mes top_n =
           Inr \<lparr>map_location = default_center, zoom_start = 7, tiles = str ''OpenStreetMap'',
                circles = [], html = [legend_html]\<rparr>"
proof -
  have "matched p C agg = []" using assms(3) by (auto simp: matched_def filter_empty_conv)
  then have "concat (map (group_circles p C (Max (snd ` set agg))) agg) = []"
    by (simp add: concat_group_circles)
  then show ?thesis
    using criar_nonempty [OF assms(1,2), of C]
    by (simp add: add_child_def folium_Map_def fold_loop_body_circles fold_loop_body_fixed)
qed

text \<open>
  C10, at a frame of two groups whose names, once normalized, are not in the table.
\<close>
theorem unresolved_groups_legend_only_witness:
  "df_mapa_agg example_platform (df_mapa unresolved_frame None None) (str ''MUNICIPIO'')
       (str ''TOTAL'') 20 =
     Inr [(str ''atlantis'', 5), (str '' Eldorado '', 3)] \<and>
   [(str ''atlantis'', 5::int), (str '' Eldorado '', 3)] \<noteq> [] \<and>
   municipio_upper example_platform (str ''atlantis'') = str ''ATLANTIS'' \<and>
   municipio_upper example_platform (str '' Eldorado '') = str ''ELDORADO'' \<and>
   scenario_coords (str ''ATLANTIS'') = None \<and>
   scenario_coords (str ''ELDORADO'') = None \<and>
   criar_mapa_calor example_platform scenario_coords unresolved_frame (str ''MUNICIPIO'')
       (str ''TOTAL'') None None 20 =
     Inr \<lparr>map_location = default_center, zoom_start = 7, tiles = str ''OpenStreetMap'',
          circles = [], html = [legend_html]\<rparr>"
proof -
  have ne: "[(str ''atlantis'', 5::int), (str '' Eldorado '', 3)] \<noteq> []" by simp
  have h: "\<forall>row \<in> set [(str ''atlantis'', 5::int), (str '' Eldorado '', 3)].
             scenario_coords (municipio_upper example_platform (fst row)) = None"
    by (simp add: municipio_upper_ascii scenario_coords_simps)
  from unresolved_groups_legend_only [OF agg_unresolved ne h]
    agg_unresolved [of example_platform] ne
    municipio_upper_ascii(6,8) [of example_platform] scenario_coords_simps(3,4)
  show ?thesis by blast
qed

end
